theory Spec2Isabelle
  imports Main "HOL-Library.Word"
begin

section \<open>DecodeNote: the identifier codec, the classifier and the event validator\<close>

text \<open>
  A shallow embedding of \<^verbatim>\<open>utils/nostr.ts\<close>: \<^verbatim>\<open>parseInput\<close>,
  \<^verbatim>\<open>isValidEventStructure\<close>, \<^verbatim>\<open>decodeBech32Identifier\<close>, \<^verbatim>\<open>decodeTLV\<close>,
  \<^verbatim>\<open>getTLVTypeName\<close>, \<^verbatim>\<open>bytesToHex\<close>, \<^verbatim>\<open>bytesToNumber\<close>,
  \<^verbatim>\<open>validateEvent\<close> and \<^verbatim>\<open>hexToBytes\<close>.

  A JavaScript string is a sequence of UTF-16 code units, so it is a list of naturals
  here; \<open>js\<close> turns an ASCII literal into one. A \<^verbatim>\<open>Uint8Array\<close> is a list of
  8-bit words. A thrown exception is the \<open>Inl\<close> of a sum, and \<^verbatim>\<open>try/catch\<close> is a
  case distinction on it.
\<close>

subsection \<open>Strings, bytes and exceptions\<close>

type_synonym jsstring = "nat list"
type_synonym byte = "8 word"

definition js :: "string \<Rightarrow> jsstring" where
  "js s = map of_char s"

datatype exn = Exn (message: jsstring)

text \<open>
  The white space of ECMAScript (\<^verbatim>\<open>WhiteSpace\<close> and \<^verbatim>\<open>LineTerminator\<close>), which
  \<^verbatim>\<open>String.prototype.trim\<close> strips and \<^verbatim>\<open>parseInt\<close> skips.
\<close>

definition isWhiteSpace :: "nat \<Rightarrow> bool" where
  "isWhiteSpace c =
     (c = 9 \<or> c = 10 \<or> c = 11 \<or> c = 12 \<or> c = 13 \<or> c = 32 \<or> c = 160 \<or> c = 5760 \<or>
      (8192 \<le> c \<and> c \<le> 8202) \<or> c = 8232 \<or> c = 8233 \<or> c = 8239 \<or> c = 8287 \<or>
      c = 12288 \<or> c = 65279)"

definition trim :: "jsstring \<Rightarrow> jsstring" where
  "trim s = rev (dropWhile isWhiteSpace (rev (dropWhile isWhiteSpace s)))"

definition startsWith :: "jsstring \<Rightarrow> jsstring \<Rightarrow> bool" where
  "startsWith s p = (take (length p) s = p)"

definition substring :: "jsstring \<Rightarrow> nat \<Rightarrow> jsstring" where
  "substring s n = drop n s"

text \<open>
  \<^verbatim>\<open>toLowerCase\<close> on the ASCII letters. The source calls it on a string that has
  matched \<^verbatim>\<open>/^[0-9a-f]{64}$/i\<close> only, where this is all it does.
\<close>

definition toLowerCase :: "jsstring \<Rightarrow> jsstring" where
  "toLowerCase s = map (\<lambda>c. if 65 \<le> c \<and> c \<le> 90 then c + 32 else c) s"

text \<open>\<^verbatim>\<open>Array.prototype.slice(start, end)\<close> for \<open>0 \<le> start\<close>: both ends are clamped.\<close>

definition slice :: "'a list \<Rightarrow> nat \<Rightarrow> nat \<Rightarrow> 'a list" where
  "slice xs start end = take (end - start) (drop start xs)"

subsection \<open>Numbers to text\<close>

definition digit_char :: "nat \<Rightarrow> nat" where
  "digit_char d = (if d < 10 then 48 + d else 87 + d)"

text \<open>\<^verbatim>\<open>Number.prototype.toString(radix)\<close> on a non-negative integer.\<close>

function Number_toString :: "nat \<Rightarrow> nat \<Rightarrow> jsstring" where
  "Number_toString n radix =
     (if n < radix \<or> radix < 2 then [digit_char n]
      else Number_toString (n div radix) radix @ [digit_char (n mod radix)])"
  by pat_completeness auto
termination
  by (relation "measure (\<lambda>(n, radix). n)") auto

declare Number_toString.simps [simp del]

text \<open>\<^verbatim>\<open>padStart(targetLength, fill)\<close> with a fill string of one code unit.\<close>

definition padStart :: "jsstring \<Rightarrow> nat \<Rightarrow> nat \<Rightarrow> jsstring" where
  "padStart s targetLength fill = replicate (targetLength - length s) fill @ s"

definition bytesToHex :: "byte list \<Rightarrow> jsstring" where
  "bytesToHex bytes = concat (map (\<lambda>b. padStart (Number_toString (unat b) 16) 2 48) bytes)"

text \<open>
  \<^verbatim>\<open>result << 8\<close>: the left operand goes through \<^verbatim>\<open>ToInt32\<close>, the shift is
  on 32 bits and the result is read back as a signed 32-bit integer.
\<close>

definition shl8 :: "int \<Rightarrow> int" where
  "shl8 r = sint (push_bit 8 (word_of_int r :: 32 word))"

primrec bytesToNumber_loop :: "byte list \<Rightarrow> int \<Rightarrow> int" where
  "bytesToNumber_loop [] result = result"
| "bytesToNumber_loop (b # bytes) result = bytesToNumber_loop bytes (shl8 result + uint b)"

definition bytesToNumber :: "byte list \<Rightarrow> int" where
  "bytesToNumber bytes = bytesToNumber_loop bytes 0"

subsection \<open>hexToBytes\<close>

definition hex_value :: "nat \<Rightarrow> nat option" where
  "hex_value c =
     (if 48 \<le> c \<and> c \<le> 57 then Some (c - 48)
      else if 97 \<le> c \<and> c \<le> 102 then Some (c - 87)
      else if 65 \<le> c \<and> c \<le> 70 then Some (c - 55)
      else None)"

text \<open>
  \<^verbatim>\<open>parseInt(s, 16)\<close> on a string of two code units, stored into a
  \<^verbatim>\<open>Uint8Array\<close>: leading white space and one sign are skipped, the longest prefix
  of hexadecimal digits is read, no digit at all is \<^verbatim>\<open>NaN\<close>, which is stored as 0,
  and a negative value is stored modulo 256.
\<close>

definition parseInt16_pair :: "nat \<Rightarrow> nat \<Rightarrow> byte" where
  "parseInt16_pair c1 c2 =
     (case hex_value c1 of
        Some v1 \<Rightarrow> (case hex_value c2 of
                     Some v2 \<Rightarrow> of_nat (v1 * 16 + v2)
                   | None \<Rightarrow> of_nat v1)
      | None \<Rightarrow>
          (case hex_value c2 of
             Some v2 \<Rightarrow>
               (if isWhiteSpace c1 \<or> c1 = 43 then of_nat v2
                else if c1 = 45 then - of_nat v2
                else 0)
           | None \<Rightarrow> 0))"

text \<open>
  \<^verbatim>\<open>new Uint8Array(hex.length / 2)\<close> has \<open>length hex div 2\<close> elements, so a last
  odd code unit is dropped.
\<close>

fun hexToBytes :: "jsstring \<Rightarrow> byte list" where
  "hexToBytes (c1 # c2 # hex) = parseInt16_pair c1 c2 # hexToBytes hex"
| "hexToBytes _ = []"

subsection \<open>JSON values and the platform\<close>

text \<open>
  The numbers of JavaScript stay abstract (\<open>'n\<close>): the code only tests their type and
  hands them on to \<^verbatim>\<open>JSON.stringify\<close>. An object is the list of its own properties.
\<close>

datatype 'n json =
    JNull
  | JBool bool
  | JNumber 'n
  | JString jsstring
  | JArray "'n json list"
  | JObject "(jsstring \<times> 'n json) list"

text \<open>
  What the code calls and does not define: \<^verbatim>\<open>JSON.parse\<close> and
  \<^verbatim>\<open>JSON.stringify\<close>, \<^verbatim>\<open>TextEncoder\<close> and \<^verbatim>\<open>TextDecoder\<close>,
  \<^verbatim>\<open>crypto.subtle.digest\<close>, \<^verbatim>\<open>bech32.decode\<close> and \<^verbatim>\<open>bech32.fromWords\<close> of
  \<^verbatim>\<open>@scure/base\<close>, and \<^verbatim>\<open>schnorr.verify\<close> of \<^verbatim>\<open>@noble/secp256k1\<close>. They are
  parameters; each one that can throw or reject returns a sum. \<^verbatim>\<open>JSON.stringify\<close> is
  called with the value alone, so without indentation, and on values it does not reject;
  \<^verbatim>\<open>schnorr.verify\<close> returns the boolean that the code assigns to \<^verbatim>\<open>sigValid\<close>.
\<close>

record 'n platform =
  JSON_parse :: "jsstring \<Rightarrow> exn + 'n json"
  JSON_stringify :: "'n json \<Rightarrow> jsstring"
  TextEncoder_encode :: "jsstring \<Rightarrow> byte list"
  TextDecoder_decode :: "byte list \<Rightarrow> jsstring"
  sha256 :: "byte list \<Rightarrow> exn + byte list"
  bech32_decode :: "jsstring \<Rightarrow> nat \<Rightarrow> exn + (jsstring \<times> nat list)"
  bech32_fromWords :: "nat list \<Rightarrow> exn + byte list"
  schnorr_verify :: "byte list \<Rightarrow> byte list \<Rightarrow> byte list \<Rightarrow> exn + bool"

subsection \<open>Data model\<close>

datatype identifier_type = Npub | Nsec | Note | Nevent | Nprofile | Naddr

text \<open>A field that JavaScript leaves \<^verbatim>\<open>undefined\<close> is \<open>None\<close>.\<close>

record tlv_entry =
  type_tlv :: byte
  typeName :: jsstring
  length_tlv :: "byte option"
  value_tlv :: jsstring

record identifier_data =
  id_d :: "jsstring option"
  pubkey_d :: "jsstring option"
  relays_d :: "jsstring list option"
  author_d :: "jsstring option"
  kind_d :: "int option"
  dTag_d :: "jsstring option"

record DecodedIdentifier =
  type_i :: identifier_type
  data_i :: identifier_data
  tlv_i :: "tlv_entry list option"

datatype 'n ParsedResult =
    EventResult "'n json"
  | IdentifierResult DecodedIdentifier

record 'n NostrEvent =
  id_e :: jsstring
  pubkey_e :: jsstring
  created_at_e :: 'n
  kind_e :: 'n
  tags_e :: "'n json list"
  content_e :: jsstring
  sig_e :: jsstring

record ValidationResult =
  isValid :: bool
  idMatch :: bool
  sigValid :: bool
  errors :: "jsstring list"

definition empty_data :: identifier_data where
  "empty_data =
     \<lparr>id_d = None, pubkey_d = None, relays_d = None, author_d = None, kind_d = None,
      dTag_d = None\<rparr>"

subsection \<open>isValidEventStructure\<close>

text \<open>
  \<^verbatim>\<open>obj.k\<close> for the seven keys the code reads: an own property of an object; an
  array, a string, a number and a boolean have none of these names, also not inherited.
\<close>

fun get_prop :: "'n json \<Rightarrow> jsstring \<Rightarrow> 'n json option" where
  "get_prop (JObject props) k = map_of props k"
| "get_prop _ k = None"

text \<open>\<^verbatim>\<open>ToBoolean\<close> on a value that \<^verbatim>\<open>JSON.parse\<close> returns.\<close>

fun truthy :: "('n::zero) json \<Rightarrow> bool" where
  "truthy JNull = False"
| "truthy (JBool b) = b"
| "truthy (JNumber n) = (n \<noteq> 0)"
| "truthy (JString s) = (s \<noteq> [])"
| "truthy (JArray xs) = True"
| "truthy (JObject props) = True"

definition typeof_string :: "'n json option \<Rightarrow> bool" where
  "typeof_string v = (case v of Some (JString s) \<Rightarrow> True | _ \<Rightarrow> False)"

definition typeof_number :: "'n json option \<Rightarrow> bool" where
  "typeof_number v = (case v of Some (JNumber n) \<Rightarrow> True | _ \<Rightarrow> False)"

definition Array_isArray :: "'n json option \<Rightarrow> bool" where
  "Array_isArray v = (case v of Some (JArray xs) \<Rightarrow> True | _ \<Rightarrow> False)"

definition isValidEventStructure :: "('n::zero) json \<Rightarrow> bool" where
  "isValidEventStructure obj =
     (truthy obj \<and>
      typeof_string (get_prop obj (js ''id'')) \<and>
      typeof_string (get_prop obj (js ''pubkey'')) \<and>
      typeof_number (get_prop obj (js ''created_at'')) \<and>
      typeof_number (get_prop obj (js ''kind'')) \<and>
      Array_isArray (get_prop obj (js ''tags'')) \<and>
      typeof_string (get_prop obj (js ''content'')) \<and>
      typeof_string (get_prop obj (js ''sig'')))"

subsection \<open>decodeTLV\<close>

definition getTLVTypeName :: "byte \<Rightarrow> jsstring" where
  "getTLVTypeName t =
     (if t = 0 then js ''special''
      else if t = 1 then js ''relay''
      else if t = 2 then js ''author''
      else if t = 3 then js ''kind''
      else if t = 4 then js ''d-tag''
      else js ''unknown('' @ Number_toString (unat t) 10 @ js '')'')"

text \<open>The \<^verbatim>\<open>switch (tlvType)\<close> of the loop body, on the \<^verbatim>\<open>data\<close> of the result.\<close>

definition tlv_switch ::
  "'n platform \<Rightarrow> identifier_type \<Rightarrow> byte \<Rightarrow> byte list \<Rightarrow> identifier_data \<Rightarrow> identifier_data"
where
  "tlv_switch env type tlvType val d =
     (if tlvType = 0 then
        (if type = Nevent then d\<lparr>id_d := Some (bytesToHex val)\<rparr>
         else if type = Nprofile \<or> type = Naddr then d\<lparr>pubkey_d := Some (bytesToHex val)\<rparr>
         else d)
      else if tlvType = 1 then
        d\<lparr>relays_d :=
            Some ((case relays_d d of None \<Rightarrow> [] | Some rs \<Rightarrow> rs) @ [TextDecoder_decode env val])\<rparr>
      else if tlvType = 2 then d\<lparr>author_d := Some (bytesToHex val)\<rparr>
      else if tlvType = 3 then d\<lparr>kind_d := Some (bytesToNumber val)\<rparr>
      else if tlvType = 4 then d\<lparr>dTag_d := Some (TextDecoder_decode env val)\<rparr>
      else d)"

text \<open>
  One turn of the loop body without the advance of \<^verbatim>\<open>offset\<close>: the entry is pushed
  on \<^verbatim>\<open>result.tlv\<close> (which \<^verbatim>\<open>decodeTLV\<close> starts as the empty array) and the
  switch runs. \<open>len\<close> is \<^verbatim>\<open>data[offset + 1]\<close>, \<open>None\<close> when that read is past the end.
\<close>

definition tlv_step ::
  "'n platform \<Rightarrow> identifier_type \<Rightarrow> byte \<Rightarrow> byte option \<Rightarrow> byte list \<Rightarrow>
   DecodedIdentifier \<Rightarrow> DecodedIdentifier"
where
  "tlv_step env type tlvType len val result =
     result\<lparr>tlv_i :=
              map_option
                (\<lambda>es. es @ [\<lparr>type_tlv = tlvType, typeName = getTLVTypeName tlvType,
                              length_tlv = len, value_tlv = bytesToHex val\<rparr>])
                (tlv_i result),
            data_i := tlv_switch env type tlvType val (data_i result)\<rparr>"

text \<open>
  The \<^verbatim>\<open>while (offset < data.length)\<close> loop. When the type byte is the last byte,
  \<^verbatim>\<open>data[offset + 1]\<close> is \<^verbatim>\<open>undefined\<close>: the slice \<^verbatim>\<open>data.slice(offset + 2, NaN)\<close>
  is empty, \<^verbatim>\<open>offset\<close> becomes \<^verbatim>\<open>NaN\<close> and the loop ends.
\<close>

function decodeTLV_loop ::
  "'n platform \<Rightarrow> identifier_type \<Rightarrow> byte list \<Rightarrow> nat \<Rightarrow> DecodedIdentifier \<Rightarrow> DecodedIdentifier"
where
  "decodeTLV_loop env type data offset result =
     (if offset < length data then
        (if offset + 1 < length data then
           decodeTLV_loop env type data (offset + 2 + unat (data ! (offset + 1)))
             (tlv_step env type (data ! offset) (Some (data ! (offset + 1)))
                (slice data (offset + 2) (offset + 2 + unat (data ! (offset + 1)))) result)
         else tlv_step env type (data ! offset) None [] result)
      else result)"
  by pat_completeness auto
termination
  by (relation "measure (\<lambda>(env, type, data, offset, result). length data - offset)") auto

declare decodeTLV_loop.simps [simp del]

definition decodeTLV :: "'n platform \<Rightarrow> identifier_type \<Rightarrow> byte list \<Rightarrow> DecodedIdentifier" where
  "decodeTLV env type data =
     decodeTLV_loop env type data 0 \<lparr>type_i = type, data_i = empty_data, tlv_i = Some []\<rparr>"

subsection \<open>decodeBech32Identifier\<close>

text \<open>The body of the \<^verbatim>\<open>try\<close> block: an exception of the library leaves it.\<close>

definition decodeBech32Identifier_try ::
  "'n platform \<Rightarrow> jsstring \<Rightarrow> exn + DecodedIdentifier option"
where
  "decodeBech32Identifier_try env identifier =
     (case bech32_decode env identifier 1023 of
        Inl e \<Rightarrow> Inl e
      | Inr (prefix, words) \<Rightarrow>
          (case bech32_fromWords env words of
             Inl e \<Rightarrow> Inl e
           | Inr data \<Rightarrow>
               Inr (if prefix = js ''npub'' then
                      Some \<lparr>type_i = Npub,
                            data_i = empty_data\<lparr>pubkey_d := Some (bytesToHex data)\<rparr>,
                            tlv_i = None\<rparr>
                    else if prefix = js ''nsec'' then
                      Some \<lparr>type_i = Nsec,
                            data_i = empty_data\<lparr>pubkey_d := Some (bytesToHex data)\<rparr>,
                            tlv_i = None\<rparr>
                    else if prefix = js ''note'' then
                      Some \<lparr>type_i = Note,
                            data_i = empty_data\<lparr>id_d := Some (bytesToHex data)\<rparr>,
                            tlv_i = None\<rparr>
                    else if prefix = js ''nevent'' then Some (decodeTLV env Nevent data)
                    else if prefix = js ''nprofile'' then Some (decodeTLV env Nprofile data)
                    else if prefix = js ''naddr'' then Some (decodeTLV env Naddr data)
                    else None)))"

text \<open>The \<^verbatim>\<open>catch\<close> logs the error and returns \<^verbatim>\<open>null\<close>.\<close>

definition decodeBech32Identifier ::
  "'n platform \<Rightarrow> jsstring \<Rightarrow> exn + DecodedIdentifier option"
where
  "decodeBech32Identifier env identifier =
     (case decodeBech32Identifier_try env identifier of
        Inl error \<Rightarrow> Inr None
      | Inr r \<Rightarrow> Inr r)"

subsection \<open>parseInput\<close>

definition bech32_charset :: "nat \<Rightarrow> bool" where
  "bech32_charset c =
     (c = 48 \<or> (50 \<le> c \<and> c \<le> 57) \<or> c = 97 \<or> (99 \<le> c \<and> c \<le> 104) \<or>
      (106 \<le> c \<and> c \<le> 110) \<or> (112 \<le> c \<and> c \<le> 122))"

text \<open>\<^verbatim>\<open>/^(npub|nsec|note|nevent|nprofile|naddr)1[02-9ac-hj-np-z]+$/\<close>\<close>

definition matches_bech32 :: "jsstring \<Rightarrow> bool" where
  "matches_bech32 s =
     list_ex
       (\<lambda>p. startsWith s (p @ [49]) \<and> drop (length p + 1) s \<noteq> [] \<and>
            list_all bech32_charset (drop (length p + 1) s))
       [js ''npub'', js ''nsec'', js ''note'', js ''nevent'', js ''nprofile'', js ''naddr'']"

text \<open>\<^verbatim>\<open>/^[0-9a-f]{64}$/i\<close>\<close>

definition matches_hex64 :: "jsstring \<Rightarrow> bool" where
  "matches_hex64 s = (length s = 64 \<and> list_all (\<lambda>c. hex_value c \<noteq> None) s)"

text \<open>
  The \<^verbatim>\<open>try\<close> block around \<^verbatim>\<open>JSON.parse\<close>: \<open>Some\<close> is the \<^verbatim>\<open>return\<close> inside
  it, \<open>None\<close> is falling out of it, and the \<^verbatim>\<open>catch\<close> falls out as well.
\<close>

definition parse_json_event :: "('n::zero) platform \<Rightarrow> jsstring \<Rightarrow> exn + 'n ParsedResult option" where
  "parse_json_event env trimmed =
     (case (case JSON_parse env trimmed of
              Inl e \<Rightarrow> Inl e
            | Inr parsed \<Rightarrow>
                Inr (if isValidEventStructure parsed then Some (EventResult parsed) else None)) of
        Inl e \<Rightarrow> Inr None
      | Inr r \<Rightarrow> Inr r)"

definition parseInput :: "('n::zero) platform \<Rightarrow> jsstring \<Rightarrow> exn + 'n ParsedResult option" where
  "parseInput env input =
     (let trimmed = trim input in
      case parse_json_event env trimmed of
        Inl e \<Rightarrow> Inl e
      | Inr (Some r) \<Rightarrow> Inr (Some r)
      | Inr None \<Rightarrow>
          (case (if matches_bech32 trimmed then decodeBech32Identifier env trimmed
                 else Inr None) of
             Inl e \<Rightarrow> Inl e
           | Inr (Some decoded) \<Rightarrow> Inr (Some (IdentifierResult decoded))
           | Inr None \<Rightarrow>
               (case (if startsWith trimmed (js ''nostr:'')
                      then decodeBech32Identifier env (substring trimmed 6)
                      else Inr None) of
                  Inl e \<Rightarrow> Inl e
                | Inr (Some decoded) \<Rightarrow> Inr (Some (IdentifierResult decoded))
                | Inr None \<Rightarrow>
                    (if matches_hex64 trimmed then
                       Inr (Some (IdentifierResult
                         \<lparr>type_i = Note,
                          data_i = empty_data\<lparr>id_d := Some (toLowerCase trimmed)\<rparr>,
                          tlv_i = None\<rparr>))
                     else Inr None))))"

subsection \<open>validateEvent\<close>

definition eventForId :: "('n::zero) NostrEvent \<Rightarrow> 'n json" where
  "eventForId event =
     JArray [JNumber 0, JString (pubkey_e event), JNumber (created_at_e event),
             JNumber (kind_e event), JArray (tags_e event), JString (content_e event)]"

text \<open>
  The inner \<^verbatim>\<open>try\<close>: the signature check, from the errors collected so far to
  \<^verbatim>\<open>sigValid\<close> and the errors after it.
\<close>

definition validate_signature ::
  "'n platform \<Rightarrow> 'n NostrEvent \<Rightarrow> jsstring list \<Rightarrow> bool \<times> jsstring list"
where
  "validate_signature env event errs =
     (case schnorr_verify env (hexToBytes (sig_e event)) (hexToBytes (id_e event))
             (hexToBytes (pubkey_e event)) of
        Inr v \<Rightarrow> (v, if \<not> v then errs @ [js ''Invalid signature''] else errs)
      | Inl sigError \<Rightarrow>
          (False, errs @ [js ''Signature validation failed: '' @ message sigError]))"

text \<open>
  \<^verbatim>\<open>serialized\<close>, \<^verbatim>\<open>hash\<close> and \<^verbatim>\<open>computedId\<close>: the digest is awaited, and a
  rejection is thrown at the \<^verbatim>\<open>await\<close>.
\<close>

definition computedId :: "('n::zero) platform \<Rightarrow> 'n NostrEvent \<Rightarrow> exn + jsstring" where
  "computedId env event =
     (case sha256 env (TextEncoder_encode env (JSON_stringify env (eventForId event))) of
        Inl e \<Rightarrow> Inl e
      | Inr hash \<Rightarrow> Inr (bytesToHex hash))"

text \<open>
  The outer \<^verbatim>\<open>try\<close> is left by a rejected digest only, before anything is assigned:
  \<^verbatim>\<open>idMatch\<close> and \<^verbatim>\<open>sigValid\<close> keep their initial \<^verbatim>\<open>false\<close>.
\<close>

definition validateEvent :: "('n::zero) platform \<Rightarrow> 'n NostrEvent \<Rightarrow> ValidationResult" where
  "validateEvent env event =
     (case computedId env event of
        Inl error \<Rightarrow>
          (let errs = [js ''Validation error: '' @ message error] in
           \<lparr>isValid = (False \<and> False \<and> errs = []), idMatch = False, sigValid = False,
            errors = errs\<rparr>)
      | Inr cid \<Rightarrow>
          (let idMatch = (cid = id_e event);
               errs = (if \<not> idMatch then [js ''Event ID does not match computed hash''] else []);
               (sigValid, errs') = validate_signature env event errs
           in \<lparr>isValid = (idMatch \<and> sigValid \<and> errs' = []), idMatch = idMatch,
               sigValid = sigValid, errors = errs'\<rparr>))"

section \<open>Notions for the statements\<close>

text \<open>Lower-case hexadecimal digits.\<close>

definition lower_hex_digit :: "nat \<Rightarrow> bool" where
  "lower_hex_digit c = ((48 \<le> c \<and> c \<le> 57) \<or> (97 \<le> c \<and> c \<le> 102))"

definition no_leading_whitespace :: "jsstring \<Rightarrow> bool" where
  "no_leading_whitespace s = (case s of [] \<Rightarrow> True | c # cs \<Rightarrow> \<not> isWhiteSpace c)"

text \<open>
  The event shape in the words of the specification: the seven fields present, with
  \<^verbatim>\<open>tags\<close> a sequence of sequences of strings.
\<close>

definition is_string_seq :: "'n json \<Rightarrow> bool" where
  "is_string_seq v =
     (case v of
        JArray xs \<Rightarrow> list_all (\<lambda>x. case x of JString s \<Rightarrow> True | _ \<Rightarrow> False) xs
      | _ \<Rightarrow> False)"

definition strict_event_shape :: "'n json \<Rightarrow> bool" where
  "strict_event_shape v =
     (case v of
        JObject props \<Rightarrow>
          typeof_string (map_of props (js ''id'')) \<and>
          typeof_string (map_of props (js ''pubkey'')) \<and>
          typeof_number (map_of props (js ''created_at'')) \<and>
          typeof_number (map_of props (js ''kind'')) \<and>
          (case map_of props (js ''tags'') of
             Some (JArray rows) \<Rightarrow> list_all is_string_seq rows
           | _ \<Rightarrow> False) \<and>
          typeof_string (map_of props (js ''content'')) \<and>
          typeof_string (map_of props (js ''sig''))
      | _ \<Rightarrow> False)"

text \<open>
  The prefixes whose payload is a TLV stream, and the variant \<^verbatim>\<open>decodeTLV\<close> is called
  with.
\<close>

definition composite_type :: "jsstring \<Rightarrow> identifier_type option" where
  "composite_type prefix =
     (if prefix = js ''nevent'' then Some Nevent
      else if prefix = js ''nprofile'' then Some Nprofile
      else if prefix = js ''naddr'' then Some Naddr
      else None)"

text \<open>
  A payload is well formed when it is a concatenation of whole records: every record has
  its length byte, and the bytes that byte announces.
\<close>

fun tlv_well_formed :: "byte list \<Rightarrow> bool" where
  "tlv_well_formed [] = True"
| "tlv_well_formed [t] = False"
| "tlv_well_formed (t # l # rest) = (unat l \<le> length rest \<and> tlv_well_formed (drop (unat l) rest))"

text \<open>
  The records the loop reads off a payload, as type, length byte and value: the value is
  cut short where the payload ends, and a last lone type byte has no length byte.
\<close>

fun tlv_chunks :: "byte list \<Rightarrow> (byte \<times> byte option \<times> byte list) list" where
  "tlv_chunks [] = []"
| "tlv_chunks [t] = [(t, None, [])]"
| "tlv_chunks (t # l # rest) = (t, Some l, take (unat l) rest) # tlv_chunks (drop (unat l) rest)"

definition chunk_step ::
  "'n platform \<Rightarrow> identifier_type \<Rightarrow> DecodedIdentifier \<Rightarrow> byte \<times> byte option \<times> byte list \<Rightarrow>
   DecodedIdentifier"
where
  "chunk_step env type result c = tlv_step env type (fst c) (fst (snd c)) (snd (snd c)) result"

definition chunk_entry :: "byte \<times> byte option \<times> byte list \<Rightarrow> tlv_entry" where
  "chunk_entry c =
     \<lparr>type_tlv = fst c, typeName = getTLVTypeName (fst c), length_tlv = fst (snd c),
      value_tlv = bytesToHex (snd (snd c))\<rparr>"

text \<open>
  The bytes an entry of \<^verbatim>\<open>tlv\<close> stands for, the \<open>2 + length\<close> it announces, and
  whether its length field is the number of bytes of its value.
\<close>

definition entry_bytes :: "tlv_entry \<Rightarrow> byte list" where
  "entry_bytes e =
     type_tlv e # (case length_tlv e of None \<Rightarrow> [] | Some l \<Rightarrow> [l]) @ hexToBytes (value_tlv e)"

definition entry_size :: "tlv_entry \<Rightarrow> nat" where
  "entry_size e = 2 + (case length_tlv e of None \<Rightarrow> 0 | Some l \<Rightarrow> unat l)"

definition length_agrees :: "tlv_entry \<Rightarrow> bool" where
  "length_agrees e = (map_option unat (length_tlv e) = Some (length (value_tlv e) div 2))"

text \<open>
  The big-endian unsigned value of a byte sequence, as the specification computes it:
  \<open>result = result * 256 + byte\<close>, byte after byte.
\<close>

definition be_value :: "byte list \<Rightarrow> nat" where
  "be_value bytes = foldl (\<lambda>result b. result * 256 + unat b) 0 bytes"

section \<open>Examples\<close>

text \<open>
  One event, signed by a reference BIP-340 signer with the secret key 3 over the SHA-256
  digest of its serialization, a few NIP-19 identifiers, and a platform: each of its
  functions is tabulated at the arguments the examples reach, with the value the real
  function returns there; the messages of the exceptions are shortened.
\<close>

definition example_pubkey :: jsstring where
  "example_pubkey =
     js ''f9308a019258c31049344f85f89d5229b531c845836f99b08601f113bce036f9''"

definition example_id :: jsstring where
  "example_id =
     js ''a9d53fee641fe563de947fa330a3b4902e52e249894660aaa521cd039e896128''"

definition example_id_upper :: jsstring where
  "example_id_upper =
     js ''A9D53FEE641FE563DE947FA330A3B4902E52E249894660AAA521CD039E896128''"

definition example_sig :: jsstring where
  "example_sig =
     js (''3ed440e88bd49699e7827e60db9eaee0af7468afdb3b2c253301aa592d00c7e0'' @
         ''8c5e0f64811944b6151f8959d21c1b0b484f0f6d396bce6285e2445496e75e28'')"

definition example_serialized :: jsstring where
  \<open>example_serialized =
     js (''[0,"f9308a019258c31049344f85f89d5229b531c845836f99b08601f113bce036f9",'' @
         ''1700000000,1,[],"hello"]'')\<close>

definition example_digest :: "byte list" where
  "example_digest =
     [169, 213, 63, 238, 100, 31, 229, 99, 222, 148, 127, 163, 48, 163, 180, 144, 46,
      82, 226, 73, 137, 70, 96, 170, 165, 33, 205, 3, 158, 137, 97, 40]"

definition example_sig_bytes :: "byte list" where
  "example_sig_bytes =
     [62, 212, 64, 232, 139, 212, 150, 153, 231, 130, 126, 96, 219, 158, 174, 224, 175,
      116, 104, 175, 219, 59, 44, 37, 51, 1, 170, 89, 45, 0, 199, 224, 140, 94, 15,
      100, 129, 25, 68, 182, 21, 31, 137, 89, 210, 28, 27, 11, 72, 79, 15, 109, 57,
      107, 206, 98, 133, 226, 68, 84, 150, 231, 94, 40]"

definition example_pubkey_bytes :: "byte list" where
  "example_pubkey_bytes =
     [249, 48, 138, 1, 146, 88, 195, 16, 73, 52, 79, 133, 248, 157, 82, 41, 181, 49,
      200, 69, 131, 111, 153, 176, 134, 1, 241, 19, 188, 224, 54, 249]"

definition signed_event :: "int NostrEvent" where
  "signed_event =
     \<lparr>id_e = example_id, pubkey_e = example_pubkey, created_at_e = 1700000000, kind_e = 1,
      tags_e = [], content_e = js ''hello'', sig_e = example_sig\<rparr>"

text \<open>The same event with its id written in upper case.\<close>

definition upper_id_event :: "int NostrEvent" where
  "upper_id_event = signed_event\<lparr>id_e := example_id_upper\<rparr>"

text \<open>The signed event as JSON text, and what \<^verbatim>\<open>JSON.parse\<close> makes of it.\<close>

definition event_text :: jsstring where
  \<open>event_text =
     js (''{"id":"a9d53fee641fe563de947fa330a3b4902e52e249894660aaa521cd039e89612'' @
         ''8","pubkey":"f9308a019258c31049344f85f89d5229b531c845836f99b08601f113b'' @
         ''ce036f9","created_at":1700000000,"kind":1,"tags":[],"content":"hello",'' @
         ''"sig":"3ed440e88bd49699e7827e60db9eaee0af7468afdb3b2c253301aa592d00c7e'' @
         ''08c5e0f64811944b6151f8959d21c1b0b484f0f6d396bce6285e2445496e75e28"}'')\<close>

definition event_object :: "int json" where
  "event_object =
     JObject [(js ''id'', JString example_id), (js ''pubkey'', JString example_pubkey),
              (js ''created_at'', JNumber 1700000000), (js ''kind'', JNumber 1),
              (js ''tags'', JArray []), (js ''content'', JString (js ''hello'')),
              (js ''sig'', JString example_sig)]"

text \<open>An object whose \<^verbatim>\<open>tags\<close> is an array of strings, not of arrays.\<close>

definition loose_text :: jsstring where
  \<open>loose_text =
     js (''{"id":"00","pubkey":"00","created_at":0,"kind'' @
         ''":1,"tags":["t"],"content":"","sig":"00"}'')\<close>

definition loose_object :: "int json" where
  "loose_object =
     JObject [(js ''id'', JString (js ''00'')), (js ''pubkey'', JString (js ''00'')),
              (js ''created_at'', JNumber 0), (js ''kind'', JNumber 1),
              (js ''tags'', JArray [JString (js ''t'')]), (js ''content'', JString []),
              (js ''sig'', JString (js ''00''))]"

text \<open>A JSON text that stops in the middle of an object.\<close>

definition broken_json_text :: jsstring where
  \<open>broken_json_text = js ''{"id":"00",''\<close>

text \<open>
  Sixty-four decimal digits: valid JSON (a number, read as the nearest double) and a
  64-digit hexadecimal id at once.
\<close>

definition digits_text :: jsstring where
  "digits_text =
     js ''1000000000000000000000000000000000000000000000000000000000000000''"

definition digits_number :: int where
  "digits_number = 1000000000000000057857959942726969827393378689175040438172647424"

text \<open>The \<^verbatim>\<open>npub\<close> of the example public key.\<close>

definition npub_text :: jsstring where
  "npub_text = js ''npub1lycg5qvjtrp3qjf5f7zl382j9x6nrjz9sdhenvyxq8c3808qxmus6gq266''"

definition npub_words :: "nat list" where
  "npub_words =
     [31, 4, 24, 8, 20, 0, 12, 18, 11, 3, 1, 17, 0, 18, 9, 20, 9, 30, 2, 31, 17, 7, 10,
      18, 5, 6, 26, 19, 3, 18, 2, 5, 16, 13, 23, 25, 19, 12, 4, 6, 0, 7, 24, 17, 7, 15,
      7, 0, 6, 27, 28, 16]"

text \<open>What the \<^verbatim>\<open>npub\<close> decodes to.\<close>

definition npub_identifier :: DecodedIdentifier where
  "npub_identifier =
     \<lparr>type_i = Npub, data_i = empty_data\<lparr>pubkey_d := Some example_pubkey\<rparr>, tlv_i = None\<rparr>"

text \<open>An \<^verbatim>\<open>nevent\<close> whose payload is 00 20 aa bb: a record of type 0 that announces 32 bytes
  and has two.\<close>

definition nevent_trunc_text :: jsstring where
  "nevent_trunc_text = js ''nevent1qqs24wc4jfep0''"

definition nevent_trunc_words :: "nat list" where
  "nevent_trunc_words =
     [0, 0, 16, 10, 21, 14, 24]"

definition nevent_trunc_bytes :: "byte list" where
  "nevent_trunc_bytes = [0, 32, 170, 187]"

text \<open>An \<^verbatim>\<open>nprofile\<close> whose payload is 01 05 77 73 73: a relay record that announces five
  bytes and has three.\<close>

definition nprofile_trunc_text :: jsstring where
  "nprofile_trunc_text = js ''nprofile1qyzhwumnz6thmu''"

definition nprofile_trunc_words :: "nat list" where
  "nprofile_trunc_words =
     [0, 4, 2, 23, 14, 28, 27, 19]"

definition nprofile_trunc_bytes :: "byte list" where
  "nprofile_trunc_bytes = [1, 5, 119, 115, 115]"

text \<open>An \<^verbatim>\<open>nprofile\<close> whose payload is 00 02 aa bb 01 03 77 73 73: two records that fit.\<close>

definition nprofile_ok_text :: jsstring where
  "nprofile_ok_text = js ''nprofile1qqp24wcpqdmhxuc0durf7''"

definition nprofile_ok_words :: "nat list" where
  "nprofile_ok_words =
     [0, 0, 1, 10, 21, 14, 24, 1, 0, 13, 27, 23, 6, 28, 24]"

definition nprofile_ok_bytes :: "byte list" where
  "nprofile_ok_bytes = [0, 2, 170, 187, 1, 3, 119, 115, 115]"

text \<open>An \<^verbatim>\<open>nprofile\<close> whose payload is 00 02 aa bb 01 05 77 73 73: a record that fits, then
  a relay record that announces five bytes and has three.\<close>

definition nprofile_overrun_text :: jsstring where
  "nprofile_overrun_text = js ''nprofile1qqp24wcpq4mhxucjf8z50''"

definition nprofile_overrun_words :: "nat list" where
  "nprofile_overrun_words =
     [0, 0, 1, 10, 21, 14, 24, 1, 0, 21, 27, 23, 6, 28, 24]"

definition nprofile_overrun_bytes :: "byte list" where
  "nprofile_overrun_bytes = [0, 2, 170, 187, 1, 5, 119, 115, 115]"

text \<open>An \<^verbatim>\<open>naddr\<close> whose payload is 03 04 80 00 00 00: the kind 2147483648 on four bytes.\<close>

definition naddr_kind_text :: jsstring where
  "naddr_kind_text = js ''naddr1qvzgqqqqqqc795vy''"

definition naddr_kind_words :: "nat list" where
  "naddr_kind_words =
     [0, 12, 2, 8, 0, 0, 0, 0, 0, 0]"

definition naddr_kind_bytes :: "byte list" where
  "naddr_kind_bytes = [3, 4, 128, 0, 0, 0]"

text \<open>An \<^verbatim>\<open>npub\<close> with a right checksum and one data word: five bits, no whole byte.\<close>

definition npub_padding_text :: jsstring where
  "npub_padding_text = js ''npub1zkz89a5''"

text \<open>The \<^verbatim>\<open>npub\<close> of the example public key with its last character changed: the checksum
  fails.\<close>

definition npub_bad_text :: jsstring where
  "npub_bad_text = js ''npub1lycg5qvjtrp3qjf5f7zl382j9x6nrjz9sdhenvyxq8c3808qxmus6gq26q''"

definition example_platform :: "int platform" where
  "example_platform =
     \<lparr>JSON_parse =
        (\<lambda>s. if s = event_text then Inr event_object
             else if s = loose_text then Inr loose_object
             else if s = digits_text then Inr (JNumber digits_number)
             else Inl (Exn (js ''Unexpected token''))),
      JSON_stringify =
        (\<lambda>v. if v = eventForId signed_event then example_serialized else []),
      TextEncoder_encode = map of_nat,
      TextDecoder_decode = map unat,
      sha256 =
        (\<lambda>bytes. if bytes = map of_nat example_serialized then Inr example_digest
                 else Inl (Exn (js ''not tabulated''))),
      bech32_decode =
        (\<lambda>s limit.
           if s = npub_text then Inr (js ''npub'', npub_words)
           else if s = nevent_trunc_text then Inr (js ''nevent'', nevent_trunc_words)
           else if s = nprofile_trunc_text then Inr (js ''nprofile'', nprofile_trunc_words)
           else if s = nprofile_ok_text then Inr (js ''nprofile'', nprofile_ok_words)
           else if s = nprofile_overrun_text then Inr (js ''nprofile'', nprofile_overrun_words)
           else if s = naddr_kind_text then Inr (js ''naddr'', naddr_kind_words)
           else if s = npub_padding_text then Inr (js ''npub'', [2])
           else Inl (Exn (js ''Invalid checksum''))),
      bech32_fromWords =
        (\<lambda>ws.
           if ws = npub_words then Inr example_pubkey_bytes
           else if ws = nevent_trunc_words then Inr nevent_trunc_bytes
           else if ws = nprofile_trunc_words then Inr nprofile_trunc_bytes
           else if ws = nprofile_ok_words then Inr nprofile_ok_bytes
           else if ws = nprofile_overrun_words then Inr nprofile_overrun_bytes
           else if ws = naddr_kind_words then Inr naddr_kind_bytes
           else Inl (Exn (js ''Excess padding''))),
      schnorr_verify =
        (\<lambda>signature messageHash publicKey.
           Inr (signature = example_sig_bytes \<and> messageHash = example_digest \<and>
                publicKey = example_pubkey_bytes))\<rparr>"

text \<open>
  The same platform on a page that is not served from a secure origin: there
  \<^verbatim>\<open>crypto.subtle\<close> is \<^verbatim>\<open>undefined\<close> and the digest call throws.
\<close>

definition insecure_platform :: "int platform" where
  "insecure_platform =
     example_platform
       \<lparr>sha256 := (\<lambda>bytes. Inl (Exn (js ''Cannot read properties of undefined (reading 'digest')'')))\<rparr>"

section \<open>Lemmas\<close>

subsection \<open>Trimming\<close>

lemma dropWhile_rev_prefix:
  "\<exists>v. xs = rev (dropWhile P (rev xs)) @ v"
  by (metis rev_append rev_rev_ident takeWhile_dropWhile_id)

lemma trim_idem: "trim (trim s) = trim s"
proof -
  define t where "t = dropWhile isWhiteSpace s"
  define u where "u = rev (dropWhile isWhiteSpace (rev t))"
  have tu: "trim s = u" by (simp add: trim_def t_def u_def)
  obtain v where v: "t = u @ v" unfolding u_def using dropWhile_rev_prefix by blast
  have "dropWhile isWhiteSpace u = u"
  proof (cases u)
    case Nil
    then show ?thesis by simp
  next
    case (Cons a w)
    with v have "t = a # (w @ v)" by simp
    then have "\<not> isWhiteSpace a"
      unfolding t_def by (metis hd_dropWhile list.sel(1) list.distinct(1))
    with Cons show ?thesis by simp
  qed
  moreover have "dropWhile isWhiteSpace (rev u) = rev u"
    by (simp add: u_def)
  ultimately show ?thesis
    by (simp add: tu) (simp add: trim_def)
qed

subsection \<open>Hexadecimal text\<close>

lemma digit_char_hex: "d < 16 \<Longrightarrow> hex_value (digit_char d) = Some d"
  by (auto simp: hex_value_def digit_char_def)

lemma byte_less_256: "unat (b::byte) < 256"
  using unsigned_less [of b, where ?'a = nat] by simp

lemma hex_of_byte:
  "padStart (Number_toString (unat (b::byte)) 16) 2 48 =
     [digit_char (unat b div 16), digit_char (unat b mod 16)]"
proof (cases "unat b < 16")
  case True
  then show ?thesis
    by (simp add: Number_toString.simps [of "unat b"] padStart_def digit_char_def)
next
  case False
  from byte_less_256 [of b] have "unat b div 16 < 16" by simp
  with False show ?thesis
    by (simp add: Number_toString.simps [of "unat b"] Number_toString.simps [of "unat b div 16"]
        padStart_def)
qed

lemma bytesToHex_Nil: "bytesToHex [] = []"
  by (simp add: bytesToHex_def)

lemma bytesToHex_Cons:
  "bytesToHex (b # bs) = digit_char (unat b div 16) # digit_char (unat b mod 16) # bytesToHex bs"
  by (simp add: bytesToHex_def hex_of_byte)

lemma length_bytesToHex: "length (bytesToHex bs) = 2 * length bs"
  by (induction bs) (simp_all add: bytesToHex_Nil bytesToHex_Cons)

lemma parseInt16_pair_digits:
  "parseInt16_pair (digit_char (unat (b::byte) div 16)) (digit_char (unat b mod 16)) = b"
proof -
  from byte_less_256 [of b] have h: "unat b div 16 < 16" by simp
  have l: "unat b mod 16 < 16" by simp
  have "parseInt16_pair (digit_char (unat b div 16)) (digit_char (unat b mod 16)) =
          of_nat (unat b div 16 * 16 + unat b mod 16)"
    by (simp add: parseInt16_pair_def digit_char_hex [OF h] digit_char_hex [OF l])
  also have "unat b div 16 * 16 + unat b mod 16 = unat b" by simp
  finally show ?thesis by simp
qed

lemma hexToBytes_bytesToHex: "hexToBytes (bytesToHex bs) = bs"
  by (induction bs) (simp_all add: bytesToHex_Nil bytesToHex_Cons parseInt16_pair_digits)

lemma lower_hex_digit_char: "d < 16 \<Longrightarrow> lower_hex_digit (digit_char d)"
  by (auto simp: lower_hex_digit_def digit_char_def)

lemma bytesToHex_lower: "list_all lower_hex_digit (bytesToHex bs)"
proof (induction bs)
  case Nil
  then show ?case by (simp add: bytesToHex_Nil)
next
  case (Cons b bs)
  from byte_less_256 [of b] have "unat b div 16 < 16" by simp
  with Cons show ?case
    by (simp add: bytesToHex_Cons lower_hex_digit_char)
qed

lemma toLowerCase_lower: "list_all lower_hex_digit s \<Longrightarrow> toLowerCase s = s"
  by (induction s) (auto simp: toLowerCase_def lower_hex_digit_def)

subsection \<open>The TLV loop, record by record\<close>

text \<open>
  The loop over offsets reads the records that \<open>tlv_chunks\<close> cuts off the payload, one
  \<open>tlv_step\<close> each.
\<close>

lemma decodeTLV_loop_chunks:
  "decodeTLV_loop env type data offset result =
     foldl (chunk_step env type) result (tlv_chunks (drop offset data))"
proof (induction env type data offset result rule: decodeTLV_loop.induct)
  case (1 env type data offset result)
  show ?case
  proof (cases "offset < length data")
    case False
    then show ?thesis by (simp add: decodeTLV_loop.simps [of _ _ data offset])
  next
    case True
    then have d0: "drop offset data = data ! offset # drop (Suc offset) data"
      by (simp add: Cons_nth_drop_Suc)
    show ?thesis
    proof (cases "offset + 1 < length data")
      case False
      with True have "drop (Suc offset) data = []" by simp
      with True False d0 show ?thesis
        by (simp add: decodeTLV_loop.simps [of _ _ data offset] chunk_step_def)
    next
      case l: True
      define len where "len = data ! (offset + 1)"
      define rest where "rest = drop (offset + 2) data"
      define result' where
        "result' = tlv_step env type (data ! offset) (Some len) (take (unat len) rest) result"
      have d1: "drop (Suc offset) data = len # rest"
        using l by (simp add: Cons_nth_drop_Suc len_def rest_def)
      have sl: "slice data (offset + 2) (offset + 2 + unat len) = take (unat len) rest"
        by (simp add: slice_def rest_def)
      have dr: "drop (offset + 2 + unat len) data = drop (unat len) rest"
        by (simp add: rest_def add.commute)
      have "decodeTLV_loop env type data offset result =
              decodeTLV_loop env type data (offset + 2 + unat len) result'"
        using True l
        by (subst decodeTLV_loop.simps) (simp only: if_True len_def [symmetric] sl result'_def)
      also have "\<dots> = foldl (chunk_step env type) result' (tlv_chunks (drop (unat len) rest))"
        using "1.IH" [OF True l] sl dr by (simp only: len_def [symmetric] result'_def)
      also have "\<dots> = foldl (chunk_step env type) result (tlv_chunks (drop offset data))"
        by (simp add: d0 d1 chunk_step_def result'_def)
      finally show ?thesis .
    qed
  qed
qed

lemma decodeTLV_chunks:
  "decodeTLV env type data =
     foldl (chunk_step env type) \<lparr>type_i = type, data_i = empty_data, tlv_i = Some []\<rparr>
       (tlv_chunks data)"
  by (simp add: decodeTLV_def decodeTLV_loop_chunks)

lemma tlv_i_chunk_step:
  "tlv_i (chunk_step env type result c) = map_option (\<lambda>es. es @ [chunk_entry c]) (tlv_i result)"
  by (simp add: chunk_step_def tlv_step_def chunk_entry_def)

lemma tlv_i_foldl:
  "tlv_i (foldl (chunk_step env type) result cs) =
     map_option (\<lambda>es. es @ map chunk_entry cs) (tlv_i result)"
proof (induction cs arbitrary: result)
  case Nil
  then show ?case by (simp add: option.map_ident)
next
  case (Cons c cs)
  have "tlv_i (foldl (chunk_step env type) result (c # cs)) =
          map_option (\<lambda>es. es @ map chunk_entry cs) (tlv_i (chunk_step env type result c))"
    by (simp add: Cons.IH)
  also have "\<dots> = map_option (\<lambda>es. es @ map chunk_entry (c # cs)) (tlv_i result)"
    by (simp add: tlv_i_chunk_step option.map_comp o_def)
  finally show ?case .
qed

lemma type_i_foldl: "type_i (foldl (chunk_step env type) result cs) = type_i result"
  by (induction cs arbitrary: result) (simp_all add: chunk_step_def tlv_step_def)

lemma data_i_foldl:
  "data_i (foldl (chunk_step env type) result cs) =
     foldl (\<lambda>d c. tlv_switch env type (fst c) (snd (snd c)) d) (data_i result) cs"
  by (induction cs arbitrary: result) (simp_all add: chunk_step_def tlv_step_def)

lemma tlv_i_decodeTLV: "tlv_i (decodeTLV env type data) = Some (map chunk_entry (tlv_chunks data))"
  by (simp add: decodeTLV_chunks tlv_i_foldl)

lemma type_i_decodeTLV: "type_i (decodeTLV env type data) = type"
  by (simp add: decodeTLV_chunks type_i_foldl)

lemma data_i_decodeTLV:
  "data_i (decodeTLV env type data) =
     foldl (\<lambda>d c. tlv_switch env type (fst c) (snd (snd c)) d) empty_data (tlv_chunks data)"
  by (simp add: decodeTLV_chunks data_i_foldl)

lemma well_formed_chunks:
  "tlv_well_formed data \<Longrightarrow>
     concat (map (entry_bytes \<circ> chunk_entry) (tlv_chunks data)) = data \<and>
     list_all (length_agrees \<circ> chunk_entry) (tlv_chunks data) \<and>
     sum_list (map (entry_size \<circ> chunk_entry) (tlv_chunks data)) = length data"
proof (induction data rule: tlv_well_formed.induct)
  case 1
  then show ?case by simp
next
  case (2 t)
  then show ?case by simp
next
  case (3 t l rest)
  then show ?case
    by (simp add: entry_bytes_def chunk_entry_def entry_size_def length_agrees_def
        hexToBytes_bytesToHex length_bytesToHex min_def)
qed

lemma tlv_chunks_append:
  "tlv_well_formed pre \<Longrightarrow> tlv_chunks (pre @ ys) = tlv_chunks pre @ tlv_chunks ys"
  by (induction pre rule: tlv_well_formed.induct) simp_all

subsection \<open>The patterns and the steps of the classifier\<close>

lemma startsWith_Cons: "startsWith t (c # p) = (\<exists>u. t = c # u \<and> startsWith u p)"
  by (cases t) (auto simp: startsWith_def)

lemma js_Cons: "js (c # cs) = of_char c # js cs"
  by (simp add: js_def)

lemma js_Nil: "js [] = []"
  by (simp add: js_def)

lemma not_matches_bech32_nostr: "\<not> matches_bech32 (js ''nostr:'' @ t)"
  by (simp add: matches_bech32_def startsWith_Cons js_Cons js_Nil)

lemma matches_bech32_first: "matches_bech32 t \<Longrightarrow> \<exists>u. t = 110 # u"
  by (auto simp add: matches_bech32_def startsWith_Cons js_Cons js_Nil)

lemma matches_bech32_not_nostr: "matches_bech32 t \<Longrightarrow> \<not> startsWith t (js ''nostr:'')"
  by (auto simp add: matches_bech32_def startsWith_Cons js_Cons js_Nil)

lemma matches_bech32_not_hex64: "matches_bech32 t \<Longrightarrow> \<not> matches_hex64 t"
  by (auto dest!: matches_bech32_first simp: matches_hex64_def hex_value_def)

lemma parse_json_event_cases:
  "parse_json_event env t =
     Inr (case JSON_parse env t of
            Inl e \<Rightarrow> None
          | Inr parsed \<Rightarrow> if isValidEventStructure parsed then Some (EventResult parsed) else None)"
  by (simp add: parse_json_event_def split: sum.split)

lemma decodeBech32Identifier_Inr: "\<exists>r. decodeBech32Identifier env s = Inr r"
  by (simp add: decodeBech32Identifier_def split: sum.split)

lemma parseInput_Inr: "\<exists>r. parseInput env input = Inr r"
proof -
  obtain a where a: "decodeBech32Identifier env (trim input) = Inr a"
    using decodeBech32Identifier_Inr by blast
  obtain b where b: "decodeBech32Identifier env (substring (trim input) 6) = Inr b"
    using decodeBech32Identifier_Inr by blast
  show ?thesis
    by (simp add: parseInput_def Let_def parse_json_event_cases a b
        split: sum.split option.split)
qed

lemma trim_prefix:
  assumes p: "p \<noteq> []" "\<not> isWhiteSpace (hd p)" "\<not> isWhiteSpace (last p)"
    and s: "no_leading_whitespace s"
  shows "trim (p @ s) = p @ trim s"
proof -
  from p have dp: "dropWhile isWhiteSpace (p @ s) = p @ s"
    by (cases p) simp_all
  from s have ds: "dropWhile isWhiteSpace s = s"
    by (cases s) (simp_all add: no_leading_whitespace_def)
  show ?thesis
  proof (cases s)
    case Nil
    from p have "dropWhile isWhiteSpace (rev p) = rev p"
      by (cases p rule: rev_cases) simp_all
    with Nil dp show ?thesis by (simp add: trim_def)
  next
    case (Cons c cs)
    with s have "c \<in> set (rev s)" "\<not> isWhiteSpace c"
      by (simp_all add: no_leading_whitespace_def)
    then have "dropWhile isWhiteSpace (rev s @ rev p) = dropWhile isWhiteSpace (rev s) @ rev p"
      by (rule dropWhile_append1)
    with dp ds show ?thesis by (simp add: trim_def)
  qed
qed

lemma parseInput_bech32_step:
  assumes r: "parseInput env s = Inr (Some (IdentifierResult d))" and m: "matches_bech32 (trim s)"
  shows "parse_json_event env (trim s) = Inr None \<and>
         decodeBech32Identifier env (trim s) = Inr (Some d)"
proof -
  obtain a where a: "decodeBech32Identifier env (trim s) = Inr a"
    using decodeBech32Identifier_Inr by blast
  obtain j where j: "parse_json_event env (trim s) = Inr j"
    by (simp add: parse_json_event_cases)
  have jn: "j = None"
  proof (cases j)
    case None
    then show ?thesis .
  next
    case (Some x)
    with j have "parseInput env s = Inr (Some x)" by (simp add: parseInput_def)
    moreover from Some j have "\<exists>v. x = EventResult v"
      by (auto simp: parse_json_event_cases split: sum.splits if_splits)
    ultimately show ?thesis using r by auto
  qed
  have "a = Some d"
  proof (cases a)
    case None
    with a j jn m have "parseInput env s = Inr None"
      by (simp add: parseInput_def matches_bech32_not_nostr matches_bech32_not_hex64)
    with r show ?thesis by simp
  next
    case (Some x)
    with a j jn m have "parseInput env s = Inr (Some (IdentifierResult x))"
      by (simp add: parseInput_def)
    with r Some show ?thesis by simp
  qed
  with a j jn show ?thesis by simp
qed

subsection \<open>The two ways through the validator\<close>

lemma computedId_cases:
  "sha256 env (TextEncoder_encode env (JSON_stringify env (eventForId event))) = Inr hash \<Longrightarrow>
     computedId env event = Inr (bytesToHex hash)"
  "sha256 env (TextEncoder_encode env (JSON_stringify env (eventForId event))) = Inl e \<Longrightarrow>
     computedId env event = Inl e"
  by (simp_all add: computedId_def)

lemma validate_signature_fst:
  "fst (validate_signature env event errs) =
     (schnorr_verify env (hexToBytes (sig_e event)) (hexToBytes (id_e event))
        (hexToBytes (pubkey_e event)) = Inr True)"
  by (simp add: validate_signature_def split: sum.split)

lemma validate_signature_snd:
  "snd (validate_signature env event errs) = errs @ snd (validate_signature env event [])"
  by (simp add: validate_signature_def split: sum.split)

lemma id_message_not_signature:
  "js ''Event ID does not match computed hash'' \<notin> set (snd (validate_signature env event []))"
  by (simp add: validate_signature_def js_Cons js_Nil split: sum.split)

lemma validateEvent_Inr:
  assumes "computedId env event = Inr cid"
  shows "idMatch (validateEvent env event) = (cid = id_e event)"
    and "sigValid (validateEvent env event) = fst (validate_signature env event [])"
    and "errors (validateEvent env event) =
           (if cid = id_e event then [] else [js ''Event ID does not match computed hash'']) @
           snd (validate_signature env event [])"
  using assms validate_signature_snd [of env event "[js ''Event ID does not match computed hash'']"]
  by (simp_all add: validateEvent_def Let_def case_prod_beta validate_signature_fst)

lemma validateEvent_Inl:
  assumes "computedId env event = Inl e"
  shows "validateEvent env event =
           \<lparr>isValid = False, idMatch = False, sigValid = False,
            errors = [js ''Validation error: '' @ message e]\<rparr>"
  using assms by (simp add: validateEvent_def)

subsection \<open>The examples, evaluated\<close>

lemma eventForId_upper: "eventForId upper_id_event = eventForId signed_event"
  by (simp add: eventForId_def upper_id_event_def)

lemma example_sha256:
  "sha256 example_platform
     (TextEncoder_encode example_platform
        (JSON_stringify example_platform (eventForId signed_event))) = Inr example_digest"
  by (simp add: example_platform_def)

lemma insecure_sha256:
  "sha256 insecure_platform
     (TextEncoder_encode insecure_platform
        (JSON_stringify insecure_platform (eventForId signed_event))) =
   Inl (Exn (js ''Cannot read properties of undefined (reading 'digest')''))"
  by (simp add: insecure_platform_def)

lemma bytesToHex_example_digest: "bytesToHex example_digest = example_id"
  by (simp add: example_digest_def example_id_def bytesToHex_Cons bytesToHex_Nil digit_char_def
      js_def)

lemma hexToBytes_example_id: "hexToBytes example_id = example_digest"
  by (simp add: bytesToHex_example_digest [symmetric] hexToBytes_bytesToHex)

lemma hexToBytes_example_id_upper: "hexToBytes example_id_upper = example_digest"
  by (simp add: example_id_upper_def example_digest_def js_def parseInt16_pair_def hex_value_def)

lemma hexToBytes_example_sig: "hexToBytes example_sig = example_sig_bytes"
  by (simp add: example_sig_def example_sig_bytes_def js_def parseInt16_pair_def hex_value_def)

lemma hexToBytes_example_pubkey: "hexToBytes example_pubkey = example_pubkey_bytes"
  by (simp add: example_pubkey_def example_pubkey_bytes_def js_def parseInt16_pair_def
      hex_value_def)

lemma toLowerCase_example_id_upper: "toLowerCase example_id_upper = example_id"
  by (simp add: example_id_upper_def example_id_def toLowerCase_def js_def)

lemma example_id_neq_upper: "example_id \<noteq> example_id_upper"
  by (simp add: example_id_upper_def example_id_def js_def)

lemma example_schnorr_signed:
  "schnorr_verify example_platform (hexToBytes (sig_e signed_event))
     (hexToBytes (id_e signed_event)) (hexToBytes (pubkey_e signed_event)) = Inr True"
  by (simp add: signed_event_def hexToBytes_example_sig hexToBytes_example_id
      hexToBytes_example_pubkey example_platform_def)

lemma example_schnorr_upper:
  "schnorr_verify example_platform (hexToBytes (sig_e upper_id_event))
     (hexToBytes (id_e upper_id_event)) (hexToBytes (pubkey_e upper_id_event)) = Inr True"
  by (simp add: upper_id_event_def signed_event_def hexToBytes_example_sig
      hexToBytes_example_id_upper hexToBytes_example_pubkey example_platform_def)

lemma id_e_signed: "id_e signed_event = example_id"
  by (simp add: signed_event_def)

lemma id_e_upper: "id_e upper_id_event = example_id_upper"
  by (simp add: upper_id_event_def)

subsection \<open>Composite identifiers\<close>

lemma decodeBech32Identifier_composite:
  assumes "bech32_decode env identifier 1023 = Inr (prefix, ws)"
    and "bech32_fromWords env ws = Inr data"
    and "composite_type prefix = Some type"
  shows "decodeBech32Identifier env identifier = Inr (Some (decodeTLV env type data))"
  using assms
  by (auto simp add: decodeBech32Identifier_def decodeBech32Identifier_try_def composite_type_def
      js_def split: if_splits)

lemma tlv_chunks_overrun:
  assumes "tlv_well_formed pre" and "length rest < unat l"
  shows "tlv_chunks (pre @ t # l # rest) = tlv_chunks pre @ [(t, Some l, rest)]"
  using assms by (simp add: tlv_chunks_append)

lemma decodeTLV_overrun:
  assumes "tlv_well_formed pre" and "length rest < unat l"
  shows "tlv_i (decodeTLV env type (pre @ t # l # rest)) =
           map_option
             (\<lambda>es. es @ [\<lparr>type_tlv = t, typeName = getTLVTypeName t, length_tlv = Some l,
                            value_tlv = bytesToHex rest\<rparr>])
             (tlv_i (decodeTLV env type pre))"
    and "data_i (decodeTLV env type (pre @ t # l # rest)) =
           tlv_switch env type t rest (data_i (decodeTLV env type pre))"
  by (simp_all add: tlv_i_decodeTLV data_i_decodeTLV tlv_chunks_overrun [OF assms] chunk_entry_def)

subsection \<open>The example identifiers, evaluated\<close>

lemma example_decode_nevent_trunc:
  "bech32_decode example_platform nevent_trunc_text 1023 = Inr (js ''nevent'', nevent_trunc_words)"
  by (simp add: example_platform_def nevent_trunc_text_def npub_text_def js_def)

lemma example_fromWords_nevent_trunc:
  "bech32_fromWords example_platform nevent_trunc_words = Inr nevent_trunc_bytes"
  by (simp add: example_platform_def nevent_trunc_words_def npub_words_def)

lemma example_decode_nprofile_trunc:
  "bech32_decode example_platform nprofile_trunc_text 1023 =
     Inr (js ''nprofile'', nprofile_trunc_words)"
  by (simp add: example_platform_def nprofile_trunc_text_def nevent_trunc_text_def npub_text_def
      js_def)

lemma example_fromWords_nprofile_trunc:
  "bech32_fromWords example_platform nprofile_trunc_words = Inr nprofile_trunc_bytes"
  by (simp add: example_platform_def nprofile_trunc_words_def nevent_trunc_words_def
      npub_words_def)

lemma example_decode_nprofile_ok:
  "bech32_decode example_platform nprofile_ok_text 1023 = Inr (js ''nprofile'', nprofile_ok_words)"
  by (simp add: example_platform_def nprofile_ok_text_def nprofile_trunc_text_def
      nevent_trunc_text_def npub_text_def js_def)

lemma example_fromWords_nprofile_ok:
  "bech32_fromWords example_platform nprofile_ok_words = Inr nprofile_ok_bytes"
  by (simp add: example_platform_def nprofile_ok_words_def nprofile_trunc_words_def
      nevent_trunc_words_def npub_words_def)

lemma example_decode_nprofile_overrun:
  "bech32_decode example_platform nprofile_overrun_text 1023 =
     Inr (js ''nprofile'', nprofile_overrun_words)"
  by (simp add: example_platform_def nprofile_overrun_text_def nprofile_ok_text_def
      nprofile_trunc_text_def nevent_trunc_text_def npub_text_def js_def)

lemma example_fromWords_nprofile_overrun:
  "bech32_fromWords example_platform nprofile_overrun_words = Inr nprofile_overrun_bytes"
  by (simp add: example_platform_def nprofile_overrun_words_def nprofile_ok_words_def
      nprofile_trunc_words_def nevent_trunc_words_def npub_words_def)

lemma example_decode_naddr_kind:
  "bech32_decode example_platform naddr_kind_text 1023 = Inr (js ''naddr'', naddr_kind_words)"
  by (simp add: example_platform_def naddr_kind_text_def nprofile_overrun_text_def
      nprofile_ok_text_def nprofile_trunc_text_def nevent_trunc_text_def npub_text_def js_def)

lemma example_fromWords_naddr_kind:
  "bech32_fromWords example_platform naddr_kind_words = Inr naddr_kind_bytes"
  by (simp add: example_platform_def naddr_kind_words_def nprofile_overrun_words_def
      nprofile_ok_words_def nprofile_trunc_words_def nevent_trunc_words_def npub_words_def)

lemma composite_type_simps:
  "composite_type (js ''nevent'') = Some Nevent"
  "composite_type (js ''nprofile'') = Some Nprofile"
  "composite_type (js ''naddr'') = Some Naddr"
  by (simp_all add: composite_type_def js_def)

lemma decodeTLV_eq:
  "decodeTLV env type data =
     \<lparr>type_i = type,
      data_i = foldl (\<lambda>d c. tlv_switch env type (fst c) (snd (snd c)) d) empty_data
                 (tlv_chunks data),
      tlv_i = Some (map chunk_entry (tlv_chunks data))\<rparr>"
  using type_i_decodeTLV [of env type data] data_i_decodeTLV [of env type data]
    tlv_i_decodeTLV [of env type data]
  by (cases "decodeTLV env type data") simp

lemma bytesToHex_aabb: "bytesToHex [170, 187] = js ''aabb''"
  by (simp add: bytesToHex_Cons bytesToHex_Nil digit_char_def js_def)

lemma bytesToHex_wss: "bytesToHex [119, 115, 115] = js ''777373''"
  by (simp add: bytesToHex_Cons bytesToHex_Nil digit_char_def js_def)

lemma bytesToHex_kind: "bytesToHex [128, 0, 0, 0] = js ''80000000''"
  by (simp add: bytesToHex_Cons bytesToHex_Nil digit_char_def js_def)

lemma getTLVTypeName_simps:
  "getTLVTypeName 0 = js ''special''"
  "getTLVTypeName 1 = js ''relay''"
  "getTLVTypeName 3 = js ''kind''"
  by (simp_all add: getTLVTypeName_def)

lemma bytesToNumber_kind: "bytesToNumber [128, 0, 0, 0] = - 2147483648"
  by (simp add: bytesToNumber_def shl8_def)

subsection \<open>The 32-bit shift of bytesToNumber\<close>

lemma shl8_small:
  assumes "0 \<le> r" and "r * 256 < 2 ^ 31"
  shows "shl8 r = r * 256"
proof -
  have "push_bit 8 (word_of_int r :: 32 word) = word_of_int (r * 256)"
    by (simp add: push_bit_eq_mult)
  then have "shl8 r = sint (word_of_int (r * 256) :: 32 word)"
    by (simp only: shl8_def)
  also have "\<dots> = signed_take_bit 31 (r * 256)"
    by (simp only: sint_sbintrunc') simp
  also have "\<dots> = r * 256"
    using assms by (intro signed_take_bit_int_eq_self) simp_all
  finally show ?thesis .
qed

lemma be_fold_mono: "a \<le> foldl (\<lambda>result b. result * 256 + unat (b::byte)) a bytes"
proof (induction bytes arbitrary: a)
  case Nil
  then show ?case by simp
next
  case (Cons b bytes)
  have "a \<le> a * 256 + unat b" by simp
  also have "\<dots> \<le> foldl (\<lambda>result b. result * 256 + unat b) (a * 256 + unat b) bytes"
    by (rule Cons.IH)
  finally show ?case by simp
qed

lemma bytesToNumber_loop_be:
  "foldl (\<lambda>result b. result * 256 + unat (b::byte)) a bytes < 2 ^ 31 \<Longrightarrow>
     bytesToNumber_loop bytes (int a) =
       int (foldl (\<lambda>result b. result * 256 + unat b) a bytes)"
proof (induction bytes arbitrary: a)
  case Nil
  then show ?case by simp
next
  case (Cons b bytes)
  let ?a' = "a * 256 + unat b"
  from Cons.prems have lt: "foldl (\<lambda>result b. result * 256 + unat b) ?a' bytes < 2 ^ 31"
    by simp
  have "?a' < 2 ^ 31"
    using be_fold_mono [of ?a' bytes] lt by (rule le_less_trans)
  then have "a * 256 < 2 ^ 31" by (rule add_lessD1)
  then have "int (a * 256) < int (2 ^ 31)" by (simp only: of_nat_less_iff)
  then have "int a * 256 < 2 ^ 31" by simp
  then have "shl8 (int a) = int a * 256" by (intro shl8_small) simp_all
  then have "shl8 (int a) + uint b = int ?a'" by simp
  with Cons.IH [OF lt] show ?case by simp
qed

lemma bytesToNumber_be_value:
  "be_value bytes < 2 ^ 31 \<Longrightarrow> bytesToNumber bytes = int (be_value bytes)"
  using bytesToNumber_loop_be [of 0 bytes] by (simp add: bytesToNumber_def be_value_def)

subsection \<open>The event branch of the classifier\<close>

lemma isValidEventStructure_iff:
  "isValidEventStructure v =
     (\<exists>props a b c d ts e f.
        v = JObject props \<and>
        map_of props (js ''id'') = Some (JString a) \<and>
        map_of props (js ''pubkey'') = Some (JString b) \<and>
        map_of props (js ''created_at'') = Some (JNumber c) \<and>
        map_of props (js ''kind'') = Some (JNumber d) \<and>
        map_of props (js ''tags'') = Some (JArray ts) \<and>
        map_of props (js ''content'') = Some (JString e) \<and>
        map_of props (js ''sig'') = Some (JString f))"
  by (cases v)
    (auto simp: isValidEventStructure_def typeof_string_def typeof_number_def Array_isArray_def
      split: option.splits json.splits)

lemma strict_event_shape_valid: "strict_event_shape v \<Longrightarrow> isValidEventStructure v"
  by (cases v)
    (auto simp: strict_event_shape_def isValidEventStructure_def Array_isArray_def
      split: option.splits json.splits)

lemma chunk_step_JSON_parse: "chunk_step (env\<lparr>JSON_parse := f\<rparr>) = chunk_step env"
  by (simp add: fun_eq_iff chunk_step_def tlv_step_def tlv_switch_def)

lemma decodeBech32Identifier_JSON_parse:
  "decodeBech32Identifier (env\<lparr>JSON_parse := f\<rparr>) s = decodeBech32Identifier env s"
  by (simp add: decodeBech32Identifier_def decodeBech32Identifier_try_def decodeTLV_chunks
      chunk_step_JSON_parse split: sum.split prod.split)

lemma parseInput_EventResult_iff:
  "(parseInput env input = Inr (Some (EventResult v))) =
     (JSON_parse env (trim input) = Inr v \<and> isValidEventStructure v)"
proof -
  obtain a where a: "decodeBech32Identifier env (trim input) = Inr a"
    using decodeBech32Identifier_Inr by blast
  obtain b where b: "decodeBech32Identifier env (substring (trim input) 6) = Inr b"
    using decodeBech32Identifier_Inr by blast
  show ?thesis
    by (auto simp add: parseInput_def Let_def parse_json_event_cases a b
        split: sum.splits option.splits if_splits)
qed

lemma parseInput_fall_through:
  assumes "\<forall>w. JSON_parse env (trim input) = Inr w \<longrightarrow> \<not> isValidEventStructure w"
  shows "parseInput env input = parseInput (env\<lparr>JSON_parse := \<lambda>s. Inl e\<rparr>) input"
proof -
  let ?env = "env\<lparr>JSON_parse := \<lambda>s. Inl e\<rparr>"
  obtain a where a: "decodeBech32Identifier env (trim input) = Inr a"
    using decodeBech32Identifier_Inr by blast
  obtain b where b: "decodeBech32Identifier env (substring (trim input) 6) = Inr b"
    using decodeBech32Identifier_Inr by blast
  have a': "decodeBech32Identifier ?env (trim input) = Inr a"
    by (simp only: decodeBech32Identifier_JSON_parse a)
  have b': "decodeBech32Identifier ?env (substring (trim input) 6) = Inr b"
    by (simp only: decodeBech32Identifier_JSON_parse b)
  from assms have j: "parse_json_event env (trim input) = Inr None"
    by (auto simp add: parse_json_event_cases split: sum.splits)
  have j': "parse_json_event ?env (trim input) = Inr None"
    by (simp add: parse_json_event_cases)
  have "parseInput env input =
          (case (if matches_bech32 (trim input) then a else None) of
             Some decoded \<Rightarrow> Inr (Some (IdentifierResult decoded))
           | None \<Rightarrow>
               (case (if startsWith (trim input) (js ''nostr:'') then b else None) of
                  Some decoded \<Rightarrow> Inr (Some (IdentifierResult decoded))
                | None \<Rightarrow>
                    (if matches_hex64 (trim input) then
                       Inr (Some (IdentifierResult
                         \<lparr>type_i = Note,
                          data_i = empty_data\<lparr>id_d := Some (toLowerCase (trim input))\<rparr>,
                          tlv_i = None\<rparr>))
                     else Inr None)))"
    by (simp add: parseInput_def Let_def j a b split: option.split)
  also have "\<dots> = parseInput ?env input"
    by (simp add: parseInput_def Let_def j' a' b' split: option.split)
  finally show ?thesis .
qed

subsection \<open>The example inputs of the classifier, evaluated\<close>

lemma trim_event_text: "trim event_text = event_text"
  by (simp add: trim_def event_text_def js_def isWhiteSpace_def)

lemma trim_loose_text: "trim loose_text = loose_text"
  by (simp add: trim_def loose_text_def js_def isWhiteSpace_def)

lemma trim_digits_text: "trim digits_text = digits_text"
  by (simp add: trim_def digits_text_def js_def isWhiteSpace_def)

lemma trim_broken_json_text: "trim broken_json_text = broken_json_text"
  by (simp add: trim_def broken_json_text_def js_def isWhiteSpace_def)

lemma trim_npub_text: "trim npub_text = npub_text"
  by (simp add: trim_def npub_text_def js_def isWhiteSpace_def)

lemma trim_npub_bad_text: "trim npub_bad_text = npub_bad_text"
  by (simp add: trim_def npub_bad_text_def js_def isWhiteSpace_def)

lemma trim_space_npub_text: "trim (32 # npub_text) = npub_text"
  using trim_npub_text by (simp add: trim_def isWhiteSpace_def npub_text_def js_def)

lemma trim_padded_npub_text: "trim (9 # 32 # npub_text @ [32, 10]) = npub_text"
  using trim_npub_text by (simp add: trim_def isWhiteSpace_def npub_text_def js_def)

lemma trim_nostr_space_npub_text:
  "trim (js ''nostr:'' @ 32 # npub_text) = js ''nostr:'' @ 32 # npub_text"
  by (simp add: trim_def isWhiteSpace_def npub_text_def js_def)

lemma example_parse_event: "JSON_parse example_platform event_text = Inr event_object"
  by (simp add: example_platform_def)

lemma example_parse_loose: "JSON_parse example_platform loose_text = Inr loose_object"
  by (simp add: example_platform_def loose_text_def event_text_def js_def)

lemma example_parse_digits:
  "JSON_parse example_platform digits_text = Inr (JNumber digits_number)"
  by (simp add: example_platform_def digits_text_def loose_text_def event_text_def js_def)

lemma example_parse_broken:
  "JSON_parse example_platform broken_json_text = Inl (Exn (js ''Unexpected token''))"
  by (simp add: example_platform_def broken_json_text_def digits_text_def loose_text_def
      event_text_def js_def)

lemma example_parse_npub:
  "JSON_parse example_platform npub_text = Inl (Exn (js ''Unexpected token''))"
  by (simp add: example_platform_def npub_text_def digits_text_def loose_text_def
      event_text_def js_def)

lemma example_parse_npub_bad:
  "JSON_parse example_platform npub_bad_text = Inl (Exn (js ''Unexpected token''))"
  by (simp add: example_platform_def npub_bad_text_def digits_text_def loose_text_def
      event_text_def js_def)

lemma example_parse_nostr:
  "JSON_parse example_platform (js ''nostr:'' @ t) = Inl (Exn (js ''Unexpected token''))"
  by (simp add: example_platform_def digits_text_def loose_text_def event_text_def js_def)

lemma example_decode_npub:
  "bech32_decode example_platform npub_text 1023 = Inr (js ''npub'', npub_words)"
  by (simp add: example_platform_def)

lemma example_fromWords_npub:
  "bech32_fromWords example_platform npub_words = Inr example_pubkey_bytes"
  by (simp add: example_platform_def)

lemma example_decode_npub_bad:
  "bech32_decode example_platform npub_bad_text 1023 = Inl (Exn (js ''Invalid checksum''))"
  by (simp add: example_platform_def npub_bad_text_def npub_text_def nevent_trunc_text_def
      nprofile_trunc_text_def nprofile_ok_text_def nprofile_overrun_text_def naddr_kind_text_def
      npub_padding_text_def js_def)

lemma example_decode_npub_padding:
  "bech32_decode example_platform npub_padding_text 1023 = Inr (js ''npub'', [2])"
  by (simp add: example_platform_def npub_padding_text_def npub_text_def nevent_trunc_text_def
      nprofile_trunc_text_def nprofile_ok_text_def nprofile_overrun_text_def naddr_kind_text_def
      js_def)

lemma example_fromWords_padding:
  "bech32_fromWords example_platform [2] = Inl (Exn (js ''Excess padding''))"
  by (simp add: example_platform_def npub_words_def nevent_trunc_words_def
      nprofile_trunc_words_def nprofile_ok_words_def nprofile_overrun_words_def
      naddr_kind_words_def)

lemma matches_bech32_npub_padding: "matches_bech32 npub_padding_text"
  by (simp add: matches_bech32_def npub_padding_text_def startsWith_def bech32_charset_def
      js_def)

lemma trim_npub_padding_text: "trim npub_padding_text = npub_padding_text"
  by (simp add: trim_def npub_padding_text_def js_def isWhiteSpace_def)

lemma example_parse_npub_padding:
  "JSON_parse example_platform npub_padding_text = Inl (Exn (js ''Unexpected token''))"
  by (simp add: example_platform_def npub_padding_text_def digits_text_def loose_text_def
      event_text_def js_def)

lemma example_decode_space_npub:
  "bech32_decode example_platform (32 # npub_text) 1023 = Inl (Exn (js ''Invalid checksum''))"
  by (simp add: example_platform_def npub_text_def nevent_trunc_text_def
      nprofile_trunc_text_def nprofile_ok_text_def nprofile_overrun_text_def naddr_kind_text_def
      npub_padding_text_def js_def)

lemma bytesToHex_example_pubkey: "bytesToHex example_pubkey_bytes = example_pubkey"
  by (simp add: example_pubkey_bytes_def example_pubkey_def bytesToHex_Cons bytesToHex_Nil
      digit_char_def js_def)

lemma matches_bech32_npub: "matches_bech32 npub_text"
  by (simp add: matches_bech32_def npub_text_def startsWith_def bech32_charset_def js_def)

lemma matches_bech32_npub_bad: "matches_bech32 npub_bad_text"
  by (simp add: matches_bech32_def npub_bad_text_def startsWith_def bech32_charset_def js_def)

lemma not_nostr_npub_bad: "\<not> startsWith npub_bad_text (js ''nostr:'')"
  by (rule matches_bech32_not_nostr [OF matches_bech32_npub_bad])

lemma broken_json_no_pattern:
  "\<not> matches_bech32 broken_json_text"
  "\<not> startsWith broken_json_text (js ''nostr:'')"
  "\<not> matches_hex64 broken_json_text"
  by (simp_all add: matches_bech32_def startsWith_def matches_hex64_def broken_json_text_def
      js_def)

lemma example_decodeBech32Identifier_npub:
  "decodeBech32Identifier example_platform npub_text = Inr (Some npub_identifier)"
  by (simp add: decodeBech32Identifier_def decodeBech32Identifier_try_def example_decode_npub
      example_fromWords_npub bytesToHex_example_pubkey npub_identifier_def)

lemma example_parseInput_trimmed_npub:
  "trim s = npub_text \<Longrightarrow> parseInput example_platform s = Inr (Some (IdentifierResult npub_identifier))"
  by (simp add: parseInput_def parse_json_event_cases example_parse_npub matches_bech32_npub
      example_decodeBech32Identifier_npub)

lemma isValidEventStructure_event_object: "isValidEventStructure event_object"
  by (simp add: isValidEventStructure_def event_object_def typeof_string_def typeof_number_def
      Array_isArray_def js_def)

lemma strict_event_shape_event_object: "strict_event_shape event_object"
  by (simp add: strict_event_shape_def event_object_def typeof_string_def typeof_number_def
      js_def)

lemma isValidEventStructure_loose_object: "isValidEventStructure loose_object"
  by (simp add: isValidEventStructure_def loose_object_def typeof_string_def typeof_number_def
      Array_isArray_def js_def)

lemma not_strict_loose_object: "\<not> strict_event_shape loose_object"
  by (simp add: strict_event_shape_def loose_object_def typeof_string_def typeof_number_def
      is_string_seq_def js_def)

lemma digits_text_patterns:
  "\<not> matches_bech32 digits_text"
  "\<not> startsWith digits_text (js ''nostr:'')"
  "matches_hex64 digits_text"
  by (simp_all add: matches_bech32_def startsWith_def matches_hex64_def digits_text_def
      hex_value_def js_def)

lemma toLowerCase_digits_text: "toLowerCase digits_text = digits_text"
  by (simp add: toLowerCase_def digits_text_def js_def)

lemma example_parseInput_npub_bad: "parseInput example_platform npub_bad_text = Inr None"
  by (simp add: parseInput_def trim_npub_bad_text parse_json_event_cases example_parse_npub_bad
      matches_bech32_npub_bad not_nostr_npub_bad
      matches_bech32_not_hex64 [OF matches_bech32_npub_bad]
      decodeBech32Identifier_def decodeBech32Identifier_try_def example_decode_npub_bad)

lemma example_parseInput_npub_padding:
  "parseInput example_platform npub_padding_text = Inr None"
  by (simp add: parseInput_def trim_npub_padding_text parse_json_event_cases
      example_parse_npub_padding matches_bech32_npub_padding
      matches_bech32_not_nostr [OF matches_bech32_npub_padding]
      matches_bech32_not_hex64 [OF matches_bech32_npub_padding]
      decodeBech32Identifier_def decodeBech32Identifier_try_def example_decode_npub_padding
      example_fromWords_padding)

lemma trim_npub_text_space: "trim (npub_text @ [32]) = npub_text"
  using trim_npub_text by (simp add: trim_def isWhiteSpace_def npub_text_def js_def)

lemma no_leading_whitespace_npub: "no_leading_whitespace (npub_text @ [32])"
  by (simp add: no_leading_whitespace_def npub_text_def js_def isWhiteSpace_def)

section \<open>The validator\<close>

text \<open>
  C1. The computed id and the id check. When the digest of the serialization is
  delivered, \<^verbatim>\<open>computedId\<close> is the hexadecimal text of the SHA-256 digest of the UTF-8
  bytes of \<^verbatim>\<open>JSON.stringify([0, pubkey, created_at, kind, tags, content])\<close>: two
  lower-case digits a byte, from which \<^verbatim>\<open>hexToBytes\<close> gives the digest back.
  \<open>idMatch\<close> is the equality of that text with \<^verbatim>\<open>event.id\<close> as it stands: the id is
  not brought to lower case first. The message
  \<^verbatim>\<open>Event ID does not match computed hash\<close> is among the errors exactly when
  \<open>idMatch\<close> is false. When the digest call throws, \<open>idMatch\<close> is false and the only error
  is the \<^verbatim>\<open>Validation error\<close> of the outer \<^verbatim>\<open>catch\<close>.
\<close>

theorem validateEvent_id_check:
  "eventForId event =
     JArray [JNumber 0, JString (pubkey_e event), JNumber (created_at_e event),
             JNumber (kind_e event), JArray (tags_e event), JString (content_e event)] \<and>
   (sha256 env (TextEncoder_encode env (JSON_stringify env (eventForId event))) = Inr hash \<longrightarrow>
      computedId env event = Inr (bytesToHex hash) \<and>
      list_all lower_hex_digit (bytesToHex hash) \<and>
      length (bytesToHex hash) = 2 * length hash \<and>
      hexToBytes (bytesToHex hash) = hash \<and>
      idMatch (validateEvent env event) = (bytesToHex hash = id_e event) \<and>
      (js ''Event ID does not match computed hash'' \<in> set (errors (validateEvent env event))) =
        (\<not> idMatch (validateEvent env event))) \<and>
   (sha256 env (TextEncoder_encode env (JSON_stringify env (eventForId event))) = Inl e \<longrightarrow>
      \<not> idMatch (validateEvent env event) \<and>
      errors (validateEvent env event) = [js ''Validation error: '' @ message e])"
proof (intro conjI impI)
  show "eventForId event =
     JArray [JNumber 0, JString (pubkey_e event), JNumber (created_at_e event),
             JNumber (kind_e event), JArray (tags_e event), JString (content_e event)]"
    by (simp add: eventForId_def)
next
  assume h: "sha256 env (TextEncoder_encode env (JSON_stringify env (eventForId event))) = Inr hash"
  note c = computedId_cases(1) [OF h]
  show "computedId env event = Inr (bytesToHex hash)" by (rule c)
  show "list_all lower_hex_digit (bytesToHex hash)" by (rule bytesToHex_lower)
  show "length (bytesToHex hash) = 2 * length hash" by (rule length_bytesToHex)
  show "hexToBytes (bytesToHex hash) = hash" by (rule hexToBytes_bytesToHex)
  show "idMatch (validateEvent env event) = (bytesToHex hash = id_e event)"
    by (rule validateEvent_Inr(1) [OF c])
  show "(js ''Event ID does not match computed hash'' \<in> set (errors (validateEvent env event))) =
          (\<not> idMatch (validateEvent env event))"
    using id_message_not_signature [of env event]
    by (simp add: validateEvent_Inr [OF c])
next
  assume h: "sha256 env (TextEncoder_encode env (JSON_stringify env (eventForId event))) = Inl e"
  note c = computedId_cases(2) [OF h]
  show "\<not> idMatch (validateEvent env event)" by (simp add: validateEvent_Inl [OF c])
  show "errors (validateEvent env event) = [js ''Validation error: '' @ message e]"
    by (simp add: validateEvent_Inl [OF c])
qed

text \<open>
  The signed event on the example platform, where the id matches, and on the platform
  without \<^verbatim>\<open>crypto.subtle\<close>.
\<close>

theorem validateEvent_id_check_witness:
  "sha256 example_platform
     (TextEncoder_encode example_platform
        (JSON_stringify example_platform (eventForId signed_event))) = Inr example_digest \<and>
   computedId example_platform signed_event = Inr example_id \<and>
   idMatch (validateEvent example_platform signed_event) \<and>
   js ''Event ID does not match computed hash'' \<notin>
     set (errors (validateEvent example_platform signed_event)) \<and>
   sha256 insecure_platform
     (TextEncoder_encode insecure_platform
        (JSON_stringify insecure_platform (eventForId signed_event))) =
     Inl (Exn (js ''Cannot read properties of undefined (reading 'digest')'')) \<and>
   errors (validateEvent insecure_platform signed_event) =
     [js ''Validation error: Cannot read properties of undefined (reading 'digest')'']"
  using validateEvent_id_check [where env = example_platform and event = signed_event
      and hash = example_digest, THEN conjunct2]
    validateEvent_id_check [where env = insecure_platform and event = signed_event
      and e = "Exn (js ''Cannot read properties of undefined (reading 'digest')'')",
      THEN conjunct2]
  by (simp add: example_sha256 insecure_sha256 bytesToHex_example_digest id_e_signed js_def)

text \<open>
  The id of the signed event in upper case: brought to lower case it is the computed id,
  and \<open>idMatch\<close> is false. And where the digest call throws, \<open>idMatch\<close> is false without
  the message of the id check.
\<close>

theorem validateEvent_normalized_id_counterexample:
  "computedId example_platform upper_id_event = Inr example_id \<and>
   toLowerCase example_id = toLowerCase (id_e upper_id_event) \<and>
   \<not> idMatch (validateEvent example_platform upper_id_event) \<and>
   \<not> idMatch (validateEvent insecure_platform signed_event) \<and>
   js ''Event ID does not match computed hash'' \<notin>
     set (errors (validateEvent insecure_platform signed_event))"
proof -
  have c: "computedId example_platform upper_id_event = Inr example_id"
    by (simp add: computedId_def eventForId_upper example_sha256 bytesToHex_example_digest)
  have l: "toLowerCase example_id = toLowerCase (id_e upper_id_event)"
    using toLowerCase_lower [OF bytesToHex_lower, of example_digest]
    by (simp add: id_e_upper toLowerCase_example_id_upper bytesToHex_example_digest)
  have n: "\<not> idMatch (validateEvent example_platform upper_id_event)"
    using example_id_neq_upper by (simp add: validateEvent_Inr(1) [OF c] id_e_upper)
  have i: "validateEvent insecure_platform signed_event =
             \<lparr>isValid = False, idMatch = False, sigValid = False,
              errors = [js ''Validation error: '' @
                        message (Exn (js ''Cannot read properties of undefined (reading 'digest')''))]\<rparr>"
    by (rule validateEvent_Inl [OF computedId_cases(2) [OF insecure_sha256]])
  from c l n show ?thesis by (simp add: i js_def)
qed

text \<open>
  C2. For every event, on every platform, the result of \<^verbatim>\<open>validateEvent\<close> has
  \<open>isValid\<close> exactly when \<open>idMatch\<close> and \<open>sigValid\<close> hold and \<open>errors\<close> is empty. This
  covers the three ways through the function: a digest call that throws, a signature
  check that throws and one that returns.
\<close>

theorem validateEvent_isValid_iff:
  "isValid (validateEvent env event) =
     (idMatch (validateEvent env event) \<and> sigValid (validateEvent env event) \<and>
      errors (validateEvent env event) = [])"
  by (cases "computedId env event")
    (simp_all add: validateEvent_def Let_def case_prod_beta)

text \<open>
  C3. The signature check does not depend on the id check. When the digest of the
  serialization is delivered, \<open>sigValid\<close> is what \<^verbatim>\<open>schnorr.verify\<close> says of the bytes
  of \<^verbatim>\<open>sig\<close>, \<^verbatim>\<open>id\<close> and \<^verbatim>\<open>pubkey\<close> (false when it throws), whether the id matches
  or not, and the errors are the message of the id check, if it failed, followed by the
  errors of the signature check, which are the same in both cases. When the digest call
  throws, the outer \<^verbatim>\<open>catch\<close> is reached before either check: both fields are false and
  the only error is the \<^verbatim>\<open>Validation error\<close>.
\<close>

theorem validateEvent_signature_check:
  "(sha256 env (TextEncoder_encode env (JSON_stringify env (eventForId event))) = Inr hash \<longrightarrow>
      sigValid (validateEvent env event) =
        (schnorr_verify env (hexToBytes (sig_e event)) (hexToBytes (id_e event))
           (hexToBytes (pubkey_e event)) = Inr True) \<and>
      errors (validateEvent env event) =
        (if idMatch (validateEvent env event) then []
         else [js ''Event ID does not match computed hash'']) @
        snd (validate_signature env event [])) \<and>
   (sha256 env (TextEncoder_encode env (JSON_stringify env (eventForId event))) = Inl e \<longrightarrow>
      validateEvent env event =
        \<lparr>isValid = False, idMatch = False, sigValid = False,
         errors = [js ''Validation error: '' @ message e]\<rparr>)"
proof (intro conjI impI)
  assume h: "sha256 env (TextEncoder_encode env (JSON_stringify env (eventForId event))) = Inr hash"
  note c = computedId_cases(1) [OF h]
  show "sigValid (validateEvent env event) =
        (schnorr_verify env (hexToBytes (sig_e event)) (hexToBytes (id_e event))
           (hexToBytes (pubkey_e event)) = Inr True)"
    by (simp add: validateEvent_Inr(2) [OF c] validate_signature_fst)
  show "errors (validateEvent env event) =
        (if idMatch (validateEvent env event) then []
         else [js ''Event ID does not match computed hash'']) @
        snd (validate_signature env event [])"
    by (simp add: validateEvent_Inr [OF c])
next
  assume h: "sha256 env (TextEncoder_encode env (JSON_stringify env (eventForId event))) = Inl e"
  show "validateEvent env event =
        \<lparr>isValid = False, idMatch = False, sigValid = False,
         errors = [js ''Validation error: '' @ message e]\<rparr>"
    by (rule validateEvent_Inl [OF computedId_cases(2) [OF h]])
qed

text \<open>
  The event with its id in upper case: the id check fails, the signature check runs and
  succeeds. And the platform without \<^verbatim>\<open>crypto.subtle\<close>.
\<close>

theorem validateEvent_signature_check_witness:
  "sha256 example_platform
     (TextEncoder_encode example_platform
        (JSON_stringify example_platform (eventForId upper_id_event))) = Inr example_digest \<and>
   \<not> idMatch (validateEvent example_platform upper_id_event) \<and>
   sigValid (validateEvent example_platform upper_id_event) \<and>
   errors (validateEvent example_platform upper_id_event) =
     [js ''Event ID does not match computed hash''] \<and>
   sha256 insecure_platform
     (TextEncoder_encode insecure_platform
        (JSON_stringify insecure_platform (eventForId signed_event))) =
     Inl (Exn (js ''Cannot read properties of undefined (reading 'digest')'')) \<and>
   validateEvent insecure_platform signed_event =
     \<lparr>isValid = False, idMatch = False, sigValid = False,
      errors = [js ''Validation error: Cannot read properties of undefined (reading 'digest')'']\<rparr>"
proof -
  have c: "computedId example_platform upper_id_event = Inr example_id"
    by (simp add: computedId_def eventForId_upper example_sha256 bytesToHex_example_digest)
  have n: "\<not> idMatch (validateEvent example_platform upper_id_event)"
    using example_id_neq_upper by (simp add: validateEvent_Inr(1) [OF c] id_e_upper)
  have s: "snd (validate_signature example_platform upper_id_event []) = []"
    by (simp add: validate_signature_def example_schnorr_upper)
  show ?thesis
    using validateEvent_signature_check [of example_platform upper_id_event example_digest undefined]
      validateEvent_signature_check [of insecure_platform signed_event undefined
        "Exn (js ''Cannot read properties of undefined (reading 'digest')'')"]
    by (simp add: eventForId_upper example_sha256 insecure_sha256 example_schnorr_upper n s js_def)
qed

text \<open>
  Where the digest call throws, the signature of the signed event, which verifies, is
  reported as not valid, and no error speaks of the signature: the check was not made.
\<close>

theorem validateEvent_rejected_digest_counterexample:
  "schnorr_verify insecure_platform (hexToBytes (sig_e signed_event))
     (hexToBytes (id_e signed_event)) (hexToBytes (pubkey_e signed_event)) = Inr True \<and>
   \<not> sigValid (validateEvent insecure_platform signed_event) \<and>
   errors (validateEvent insecure_platform signed_event) =
     [js ''Validation error: Cannot read properties of undefined (reading 'digest')'']"
proof -
  have i: "validateEvent insecure_platform signed_event =
             \<lparr>isValid = False, idMatch = False, sigValid = False,
              errors = [js ''Validation error: '' @
                        message (Exn (js ''Cannot read properties of undefined (reading 'digest')''))]\<rparr>"
    by (rule validateEvent_Inl [OF computedId_cases(2) [OF insecure_sha256]])
  have "schnorr_verify insecure_platform = schnorr_verify example_platform"
    by (simp add: insecure_platform_def)
  with example_schnorr_signed show ?thesis by (simp add: i js_def)
qed

section \<open>The classifier\<close>

text \<open>
  C4. \<^verbatim>\<open>parseInput\<close> returns an event exactly when \<^verbatim>\<open>JSON.parse\<close> of the trimmed
  input returns a value that passes \<^verbatim>\<open>isValidEventStructure\<close>, and that value is the
  event returned. The structure test holds exactly of an object whose \<^verbatim>\<open>id\<close>,
  \<^verbatim>\<open>pubkey\<close>, \<^verbatim>\<open>content\<close> and \<^verbatim>\<open>sig\<close> are strings, whose \<^verbatim>\<open>created_at\<close> and
  \<^verbatim>\<open>kind\<close> are numbers and whose \<^verbatim>\<open>tags\<close> is an array: the elements of \<^verbatim>\<open>tags\<close> are
  not looked at. Every value of the shape the specification names passes it. A value
  that does not pass it is treated as a text that does not parse: the later steps run.
\<close>

theorem parseInput_event_iff:
  "(parseInput env input = Inr (Some (EventResult v))) =
     (JSON_parse env (trim input) = Inr v \<and> isValidEventStructure v) \<and>
   isValidEventStructure v =
     (\<exists>props a b c d ts e f.
        v = JObject props \<and>
        map_of props (js ''id'') = Some (JString a) \<and>
        map_of props (js ''pubkey'') = Some (JString b) \<and>
        map_of props (js ''created_at'') = Some (JNumber c) \<and>
        map_of props (js ''kind'') = Some (JNumber d) \<and>
        map_of props (js ''tags'') = Some (JArray ts) \<and>
        map_of props (js ''content'') = Some (JString e) \<and>
        map_of props (js ''sig'') = Some (JString f)) \<and>
   (strict_event_shape v \<longrightarrow> isValidEventStructure v) \<and>
   ((\<forall>w. JSON_parse env (trim input) = Inr w \<longrightarrow> \<not> isValidEventStructure w) \<longrightarrow>
      parseInput env input = parseInput (env\<lparr>JSON_parse := \<lambda>s. Inl err\<rparr>) input)"
  using parseInput_EventResult_iff [of env input v] isValidEventStructure_iff [of v]
    strict_event_shape_valid [of v] parseInput_fall_through [of env input err]
  by blast

text \<open>
  The signed event as JSON text is classified as an event. Sixty-four decimal digits
  parse as a number, fail the structure test and fall through to the step of the 64-digit
  hexadecimal id.
\<close>

theorem parseInput_event_iff_witness:
  "JSON_parse example_platform (trim event_text) = Inr event_object \<and>
   isValidEventStructure event_object \<and>
   strict_event_shape event_object \<and>
   parseInput example_platform event_text = Inr (Some (EventResult event_object)) \<and>
   JSON_parse example_platform (trim digits_text) = Inr (JNumber digits_number) \<and>
   \<not> isValidEventStructure (JNumber digits_number :: int json) \<and>
   parseInput example_platform digits_text =
     parseInput (example_platform\<lparr>JSON_parse := \<lambda>s. Inl (Exn [])\<rparr>) digits_text \<and>
   parseInput example_platform digits_text =
     Inr (Some (IdentifierResult
       \<lparr>type_i = Note, data_i = empty_data\<lparr>id_d := Some digits_text\<rparr>, tlv_i = None\<rparr>))"
proof -
  have n: "\<not> isValidEventStructure (JNumber digits_number :: int json)"
    by (simp add: isValidEventStructure_def typeof_string_def)
  have d: "parseInput example_platform digits_text =
     Inr (Some (IdentifierResult
       \<lparr>type_i = Note, data_i = empty_data\<lparr>id_d := Some digits_text\<rparr>, tlv_i = None\<rparr>))"
    by (simp add: parseInput_def trim_digits_text parse_json_event_cases example_parse_digits n
        digits_text_patterns toLowerCase_digits_text)
  show ?thesis
    using parseInput_event_iff [of example_platform event_text event_object undefined]
      parseInput_event_iff [of example_platform digits_text undefined "Exn []"]
    by (simp add: trim_event_text trim_digits_text example_parse_event example_parse_digits
        isValidEventStructure_event_object strict_event_shape_event_object n d [symmetric])
qed

text \<open>
  A JSON object whose \<^verbatim>\<open>tags\<close> is \<^verbatim>\<open>["t"]\<close>, an array of strings, is classified as an
  event.
\<close>

theorem parseInput_loose_tags_counterexample:
  "JSON_parse example_platform (trim loose_text) = Inr loose_object \<and>
   parseInput example_platform loose_text = Inr (Some (EventResult loose_object)) \<and>
   \<not> strict_event_shape loose_object"
  by (simp add: parseInput_def trim_loose_text parse_json_event_cases example_parse_loose
      isValidEventStructure_loose_object not_strict_loose_object)

text \<open>
  C5. \<^verbatim>\<open>parseInput\<close> returns on every input and every platform, whatever the library
  functions throw: its value is never an exception. A text that \<^verbatim>\<open>JSON.parse\<close> rejects
  leaves the JSON step with no match, and when no other pattern applies the result is no
  match. A text that \<^verbatim>\<open>bech32.decode\<close> or \<^verbatim>\<open>bech32.fromWords\<close> rejects leaves
  \<^verbatim>\<open>decodeBech32Identifier\<close> with no match.
\<close>

theorem parseInput_total:
  "(\<exists>r. parseInput env input = Inr r) \<and>
   (JSON_parse env (trim input) = Inl e \<and> \<not> matches_bech32 (trim input) \<and>
    \<not> startsWith (trim input) (js ''nostr:'') \<and> \<not> matches_hex64 (trim input) \<longrightarrow>
      parseInput env input = Inr None) \<and>
   (JSON_parse env (trim input) = Inl e \<longrightarrow> parse_json_event env (trim input) = Inr None) \<and>
   (bech32_decode env s 1023 = Inl e' \<longrightarrow> decodeBech32Identifier env s = Inr None) \<and>
   (bech32_decode env s 1023 = Inr (p, ws) \<and> bech32_fromWords env ws = Inl e' \<longrightarrow>
      decodeBech32Identifier env s = Inr None)"
proof (intro conjI impI)
  show "\<exists>r. parseInput env input = Inr r" by (rule parseInput_Inr)
next
  assume "JSON_parse env (trim input) = Inl e \<and> \<not> matches_bech32 (trim input) \<and>
    \<not> startsWith (trim input) (js ''nostr:'') \<and> \<not> matches_hex64 (trim input)"
  then show "parseInput env input = Inr None"
    by (simp add: parseInput_def parse_json_event_cases)
next
  assume "JSON_parse env (trim input) = Inl e"
  then show "parse_json_event env (trim input) = Inr None"
    by (simp add: parse_json_event_cases)
next
  assume "bech32_decode env s 1023 = Inl e'"
  then show "decodeBech32Identifier env s = Inr None"
    by (simp add: decodeBech32Identifier_def decodeBech32Identifier_try_def)
next
  assume "bech32_decode env s 1023 = Inr (p, ws) \<and> bech32_fromWords env ws = Inl e'"
  then show "decodeBech32Identifier env s = Inr None"
    by (simp add: decodeBech32Identifier_def decodeBech32Identifier_try_def)
qed

text \<open>
  A JSON text that stops in the middle, an \<^verbatim>\<open>npub\<close> with a wrong checksum, and one
  whose data \<^verbatim>\<open>bech32.fromWords\<close> rejects.
\<close>

theorem parseInput_total_witness:
  "JSON_parse example_platform (trim broken_json_text) = Inl (Exn (js ''Unexpected token'')) \<and>
   \<not> matches_bech32 (trim broken_json_text) \<and>
   \<not> startsWith (trim broken_json_text) (js ''nostr:'') \<and>
   \<not> matches_hex64 (trim broken_json_text) \<and>
   parseInput example_platform broken_json_text = Inr None \<and>
   parse_json_event example_platform (trim broken_json_text) = Inr None \<and>
   bech32_decode example_platform npub_bad_text 1023 = Inl (Exn (js ''Invalid checksum'')) \<and>
   decodeBech32Identifier example_platform npub_bad_text = Inr None \<and>
   parseInput example_platform npub_bad_text = Inr None \<and>
   bech32_decode example_platform npub_padding_text 1023 = Inr (js ''npub'', [2]) \<and>
   bech32_fromWords example_platform [2] = Inl (Exn (js ''Excess padding'')) \<and>
   decodeBech32Identifier example_platform npub_padding_text = Inr None \<and>
   parseInput example_platform npub_padding_text = Inr None"
  using parseInput_total [where env = example_platform and input = broken_json_text
      and e = "Exn (js ''Unexpected token'')" and s = npub_bad_text
      and e' = "Exn (js ''Invalid checksum'')"]
    parseInput_total [where env = example_platform and s = npub_padding_text
      and e' = "Exn (js ''Excess padding'')" and p = "js ''npub''" and ws = "[2]"]
  by (simp add: trim_broken_json_text example_parse_broken broken_json_no_pattern
      example_decode_npub_bad example_decode_npub_padding example_fromWords_padding
      example_parseInput_npub_bad example_parseInput_npub_padding)

text \<open>
  C9. Let \<^verbatim>\<open>parseInput\<close> decode \<open>s\<close> to an identifier by the bech32 step (the trimmed
  \<open>s\<close> matches the pattern), let \<open>s\<close> have no white space in front, and let
  \<^verbatim>\<open>JSON.parse\<close> reject the text that begins with \<^verbatim>\<open>nostr:\<close>, as it does. Then
  \<^verbatim>\<open>parseInput\<close> of \<^verbatim>\<open>nostr:\<close> followed by \<open>s\<close> returns the same identifier. White
  space after \<open>s\<close> does no harm, since the whole input is trimmed; white space in front of
  \<open>s\<close> stays between the prefix and the identifier, and the remainder is decoded as it is.
\<close>

theorem parseInput_nostr_prefix:
  assumes r: "parseInput env s = Inr (Some (IdentifierResult d))"
    and m: "matches_bech32 (trim s)"
    and w: "no_leading_whitespace s"
    and j: "JSON_parse env (trim (js ''nostr:'' @ s)) = Inl e"
  shows "parseInput env (js ''nostr:'' @ s) = Inr (Some (IdentifierResult d))"
proof -
  have t: "trim (js ''nostr:'' @ s) = js ''nostr:'' @ trim s"
    by (rule trim_prefix) (simp_all add: js_def isWhiteSpace_def w)
  from parseInput_bech32_step [OF r m]
  have d: "decodeBech32Identifier env (trim s) = Inr (Some d)" by simp
  have sw: "startsWith (js ''nostr:'' @ trim s) (js ''nostr:'')"
    by (simp add: startsWith_def)
  have ss: "substring (js ''nostr:'' @ trim s) 6 = trim s"
    by (simp add: substring_def js_def)
  from j have pj: "parse_json_event env (js ''nostr:'' @ trim s) = Inr None"
    by (simp add: parse_json_event_cases t)
  show ?thesis
    by (simp add: parseInput_def t pj not_matches_bech32_nostr sw ss d)
qed

text \<open>
  The \<^verbatim>\<open>npub\<close> of the example key, followed by a space.
\<close>

theorem parseInput_nostr_prefix_witness:
  "parseInput example_platform (npub_text @ [32]) = Inr (Some (IdentifierResult npub_identifier)) \<and>
   matches_bech32 (trim (npub_text @ [32])) \<and>
   no_leading_whitespace (npub_text @ [32]) \<and>
   JSON_parse example_platform (trim (js ''nostr:'' @ npub_text @ [32])) =
     Inl (Exn (js ''Unexpected token'')) \<and>
   parseInput example_platform (js ''nostr:'' @ npub_text @ [32]) =
     Inr (Some (IdentifierResult npub_identifier))"
proof -
  have r: "parseInput example_platform (npub_text @ [32]) =
             Inr (Some (IdentifierResult npub_identifier))"
    by (rule example_parseInput_trimmed_npub [OF trim_npub_text_space])
  have m: "matches_bech32 (trim (npub_text @ [32]))"
    by (simp add: trim_npub_text_space matches_bech32_npub)
  have t: "trim (js ''nostr:'' @ npub_text @ [32]) = js ''nostr:'' @ trim (npub_text @ [32])"
    by (rule trim_prefix) (simp_all add: js_def isWhiteSpace_def no_leading_whitespace_npub)
  have j: "JSON_parse example_platform (trim (js ''nostr:'' @ npub_text @ [32])) =
             Inl (Exn (js ''Unexpected token''))"
    by (simp only: t example_parse_nostr)
  from parseInput_nostr_prefix [OF r m no_leading_whitespace_npub j] r m
    no_leading_whitespace_npub j
  show ?thesis by simp
qed

text \<open>
  The same \<^verbatim>\<open>npub\<close> with a space in front is decoded on its own and is not decoded after
  \<^verbatim>\<open>nostr:\<close>.
\<close>

theorem parseInput_nostr_prefix_counterexample:
  "parseInput example_platform (32 # npub_text) = Inr (Some (IdentifierResult npub_identifier)) \<and>
   matches_bech32 (trim (32 # npub_text)) \<and>
   parseInput example_platform (js ''nostr:'' @ 32 # npub_text) = Inr None"
proof -
  have d: "decodeBech32Identifier example_platform (32 # npub_text) = Inr None"
    by (simp add: decodeBech32Identifier_def decodeBech32Identifier_try_def
        example_decode_space_npub)
  have sw: "startsWith (js ''nostr:'' @ 32 # npub_text) (js ''nostr:'')"
    by (simp add: startsWith_def)
  have ss: "substring (js ''nostr:'' @ 32 # npub_text) 6 = 32 # npub_text"
    by (simp add: substring_def js_def)
  have h: "\<not> matches_hex64 (js ''nostr:'' @ 32 # npub_text)"
    by (simp add: matches_hex64_def js_def hex_value_def)
  have "parseInput example_platform (js ''nostr:'' @ 32 # npub_text) = Inr None"
    by (simp add: parseInput_def trim_nostr_space_npub_text parse_json_event_cases
        example_parse_nostr not_matches_bech32_nostr sw ss d h)
  with example_parseInput_trimmed_npub [OF trim_space_npub_text] show ?thesis
    by (simp add: trim_space_npub_text matches_bech32_npub)
qed

text \<open>
  C10. \<^verbatim>\<open>parseInput\<close> gives the same result on an input and on the trimmed input, in
  every branch: every step works on the trimmed text, and trimming a trimmed text changes
  nothing.
\<close>

theorem parseInput_trim_invariant: "parseInput env s = parseInput env (trim s)"
  by (simp add: parseInput_def trim_idem)

text \<open>
  The \<^verbatim>\<open>npub\<close> between a tab, a space and a line feed.
\<close>

theorem parseInput_trim_invariant_witness:
  "trim (9 # 32 # npub_text @ [32, 10]) = npub_text \<and>
   parseInput example_platform (9 # 32 # npub_text @ [32, 10]) =
     Inr (Some (IdentifierResult npub_identifier))"
  using parseInput_trim_invariant [of example_platform "9 # 32 # npub_text @ [32, 10]"]
    example_parseInput_trimmed_npub [OF trim_npub_text]
  by (simp add: trim_padded_npub_text)

section \<open>The identifier codec\<close>

text \<open>
  C6. A payload of an \<^verbatim>\<open>nevent\<close>, \<^verbatim>\<open>nprofile\<close> or \<^verbatim>\<open>naddr\<close> in which whole
  records are followed by a record whose length byte announces more bytes than are left
  does not make \<^verbatim>\<open>decodeBech32Identifier\<close> fail: the identifier is returned. Its
  \<^verbatim>\<open>tlv\<close> lists the whole records and then the last record with the announced length and
  the bytes that are left as its value, and the fields are those of the whole records
  with the \<^verbatim>\<open>switch\<close> applied to the shortened value.
\<close>

theorem decodeBech32Identifier_overrun:
  assumes "bech32_decode env identifier 1023 = Inr (prefix, ws)"
    and "bech32_fromWords env ws = Inr (pre @ t # l # rest)"
    and "composite_type prefix = Some type"
    and "tlv_well_formed pre"
    and "length rest < unat l"
  shows "\<exists>d es. decodeBech32Identifier env identifier = Inr (Some d) \<and>
             type_i d = type \<and>
             tlv_i (decodeTLV env type pre) = Some es \<and>
             tlv_i d =
               Some (es @ [\<lparr>type_tlv = t, typeName = getTLVTypeName t, length_tlv = Some l,
                              value_tlv = bytesToHex rest\<rparr>]) \<and>
             data_i d = tlv_switch env type t rest (data_i (decodeTLV env type pre))"
  using decodeBech32Identifier_composite [OF assms(1-3)] decodeTLV_overrun [OF assms(4,5)]
  by (simp add: type_i_decodeTLV tlv_i_decodeTLV)

text \<open>
  An \<^verbatim>\<open>nprofile\<close> with a whole record and a relay record of three bytes that announces
  five.
\<close>

theorem decodeBech32Identifier_overrun_witness:
  "bech32_decode example_platform nprofile_overrun_text 1023 =
     Inr (js ''nprofile'', nprofile_overrun_words) \<and>
   bech32_fromWords example_platform nprofile_overrun_words =
     Inr ([0, 2, 170, 187] @ 1 # 5 # [119, 115, 115]) \<and>
   composite_type (js ''nprofile'') = Some Nprofile \<and>
   tlv_well_formed [0, 2, 170, 187] \<and>
   length [119, 115, 115 :: byte] < unat (5 :: byte) \<and>
   (\<exists>d. decodeBech32Identifier example_platform nprofile_overrun_text = Inr (Some d) \<and>
        type_i d = Nprofile \<and>
        tlv_i d =
          Some [\<lparr>type_tlv = 0, typeName = js ''special'', length_tlv = Some 2,
                  value_tlv = js ''aabb''\<rparr>,
                \<lparr>type_tlv = 1, typeName = js ''relay'', length_tlv = Some 5,
                  value_tlv = js ''777373''\<rparr>] \<and>
        data_i d = empty_data\<lparr>pubkey_d := Some (js ''aabb''), relays_d := Some [js ''wss'']\<rparr>)"
proof -
  have f: "bech32_fromWords example_platform nprofile_overrun_words =
             Inr ([0, 2, 170, 187] @ 1 # 5 # [119, 115, 115])"
    by (simp add: example_fromWords_nprofile_overrun nprofile_overrun_bytes_def)
  have w: "tlv_well_formed [0, 2, 170, 187]" by simp
  have l: "length [119, 115, 115 :: byte] < unat (5 :: byte)" by simp
  have p: "decodeTLV example_platform Nprofile [0, 2, 170, 187] =
             \<lparr>type_i = Nprofile, data_i = empty_data\<lparr>pubkey_d := Some (js ''aabb'')\<rparr>,
              tlv_i = Some [\<lparr>type_tlv = 0, typeName = js ''special'', length_tlv = Some 2,
                             value_tlv = js ''aabb''\<rparr>]\<rparr>"
    by (simp add: decodeTLV_eq chunk_entry_def tlv_switch_def bytesToHex_aabb
        getTLVTypeName_simps)
  have r: "TextDecoder_decode example_platform [119, 115, 115] = js ''wss''"
    by (simp add: example_platform_def js_def)
  from decodeBech32Identifier_overrun [OF example_decode_nprofile_overrun f
      composite_type_simps(2) w l]
  show ?thesis
    using example_decode_nprofile_overrun f w l
    by (simp add: composite_type_simps p tlv_switch_def r empty_data_def bytesToHex_wss
        getTLVTypeName_simps)
qed

text \<open>
  An \<^verbatim>\<open>nevent\<close> whose only record announces 32 bytes and has two is decoded: the result
  has an \<^verbatim>\<open>id\<close> of two bytes.
\<close>

theorem decodeBech32Identifier_truncated_counterexample:
  "bech32_decode example_platform nevent_trunc_text 1023 = Inr (js ''nevent'', nevent_trunc_words) \<and>
   bech32_fromWords example_platform nevent_trunc_words = Inr [0, 32, 170, 187] \<and>
   decodeBech32Identifier example_platform nevent_trunc_text =
     Inr (Some \<lparr>type_i = Nevent,
                data_i = empty_data\<lparr>id_d := Some (js ''aabb'')\<rparr>,
                tlv_i = Some [\<lparr>type_tlv = 0, typeName = js ''special'', length_tlv = Some 32,
                               value_tlv = js ''aabb''\<rparr>]\<rparr>)"
proof -
  have "decodeTLV example_platform Nevent nevent_trunc_bytes =
          \<lparr>type_i = Nevent,
           data_i = empty_data\<lparr>id_d := Some (js ''aabb'')\<rparr>,
           tlv_i = Some [\<lparr>type_tlv = 0, typeName = js ''special'', length_tlv = Some 32,
                          value_tlv = js ''aabb''\<rparr>]\<rparr>"
    by (simp add: decodeTLV_eq nevent_trunc_bytes_def chunk_entry_def tlv_switch_def
        bytesToHex_aabb getTLVTypeName_simps)
  with decodeBech32Identifier_composite [OF example_decode_nevent_trunc
      example_fromWords_nevent_trunc composite_type_simps(1)]
  show ?thesis
    using example_decode_nevent_trunc example_fromWords_nevent_trunc
    by (simp add: nevent_trunc_bytes_def)
qed

text \<open>
  C7. For a payload that is a concatenation of whole records, the entries of \<^verbatim>\<open>tlv\<close>
  stand, in their order, for consecutive pieces of the payload that make up all of it
  (type byte, length byte, value); the length field of every entry is the number of bytes
  of its value, half the length of its hexadecimal text; and the sum of \<open>2 + length\<close> over
  the entries is the length of the payload.
\<close>

theorem decodeBech32Identifier_well_formed:
  assumes "bech32_decode env identifier 1023 = Inr (prefix, ws)"
    and "bech32_fromWords env ws = Inr data"
    and "composite_type prefix = Some type"
    and "tlv_well_formed data"
  shows "\<exists>d es. decodeBech32Identifier env identifier = Inr (Some d) \<and>
             tlv_i d = Some es \<and>
             concat (map entry_bytes es) = data \<and>
             list_all length_agrees es \<and>
             sum_list (map entry_size es) = length data"
  using decodeBech32Identifier_composite [OF assms(1-3)] well_formed_chunks [OF assms(4)]
  by (simp add: tlv_i_decodeTLV list_all_iff)

text \<open>
  An \<^verbatim>\<open>nprofile\<close> with two whole records.
\<close>

theorem decodeBech32Identifier_well_formed_witness:
  "bech32_decode example_platform nprofile_ok_text 1023 = Inr (js ''nprofile'', nprofile_ok_words) \<and>
   bech32_fromWords example_platform nprofile_ok_words = Inr nprofile_ok_bytes \<and>
   composite_type (js ''nprofile'') = Some Nprofile \<and>
   tlv_well_formed nprofile_ok_bytes \<and>
   (\<exists>d es. decodeBech32Identifier example_platform nprofile_ok_text = Inr (Some d) \<and>
        tlv_i d = Some es \<and>
        concat (map entry_bytes es) = nprofile_ok_bytes \<and>
        list_all length_agrees es \<and>
        sum_list (map entry_size es) = length nprofile_ok_bytes)"
proof -
  have w: "tlv_well_formed nprofile_ok_bytes" by (simp add: nprofile_ok_bytes_def)
  from decodeBech32Identifier_well_formed [OF example_decode_nprofile_ok
      example_fromWords_nprofile_ok composite_type_simps(2) w]
  show ?thesis
    using example_decode_nprofile_ok example_fromWords_nprofile_ok w
    by (simp add: composite_type_simps)
qed

text \<open>
  An \<^verbatim>\<open>nprofile\<close> whose relay record announces five bytes and has three is decoded; the
  length field of its entry is 5, its value has 3 bytes, and \<open>2 + length\<close> is 7 for a
  payload of 5 bytes.
\<close>

theorem decodeTLV_length_counterexample:
  "bech32_decode example_platform nprofile_trunc_text 1023 =
     Inr (js ''nprofile'', nprofile_trunc_words) \<and>
   bech32_fromWords example_platform nprofile_trunc_words = Inr [1, 5, 119, 115, 115] \<and>
   decodeBech32Identifier example_platform nprofile_trunc_text =
     Inr (Some \<lparr>type_i = Nprofile,
                data_i = empty_data\<lparr>relays_d := Some [js ''wss'']\<rparr>,
                tlv_i = Some [\<lparr>type_tlv = 1, typeName = js ''relay'', length_tlv = Some 5,
                               value_tlv = js ''777373''\<rparr>]\<rparr>) \<and>
   \<not> length_agrees \<lparr>type_tlv = 1, typeName = js ''relay'', length_tlv = Some 5,
                      value_tlv = js ''777373''\<rparr> \<and>
   entry_size \<lparr>type_tlv = 1, typeName = js ''relay'', length_tlv = Some 5,
               value_tlv = js ''777373''\<rparr> = 7 \<and>
   length [1, 5, 119, 115, 115 :: byte] = 5"
proof -
  have r: "TextDecoder_decode example_platform [119, 115, 115] = js ''wss''"
    by (simp add: example_platform_def js_def)
  have "decodeTLV example_platform Nprofile nprofile_trunc_bytes =
          \<lparr>type_i = Nprofile,
           data_i = empty_data\<lparr>relays_d := Some [js ''wss'']\<rparr>,
           tlv_i = Some [\<lparr>type_tlv = 1, typeName = js ''relay'', length_tlv = Some 5,
                          value_tlv = js ''777373''\<rparr>]\<rparr>"
    by (simp add: decodeTLV_eq nprofile_trunc_bytes_def chunk_entry_def tlv_switch_def
        bytesToHex_wss getTLVTypeName_simps r empty_data_def)
  with decodeBech32Identifier_composite [OF example_decode_nprofile_trunc
      example_fromWords_nprofile_trunc composite_type_simps(2)]
  show ?thesis
    using example_decode_nprofile_trunc example_fromWords_nprofile_trunc
    by (simp add: nprofile_trunc_bytes_def length_agrees_def entry_size_def js_def)
qed

text \<open>
  C8. The kind of a record of type 3 is computed with a 32-bit shift. The four bytes
  80 00 00 00, whose big-endian unsigned value is 2147483648, give the kind -2147483648,
  and the five bytes 01 00 00 00 00 give 0. Below \<open>2 ^ 31\<close> the two agree
  (\<open>bytesToNumber_be_value\<close>).
\<close>

theorem bytesToNumber_high_bit:
  "bech32_decode example_platform naddr_kind_text 1023 = Inr (js ''naddr'', naddr_kind_words) \<and>
   bech32_fromWords example_platform naddr_kind_words = Inr [3, 4, 128, 0, 0, 0] \<and>
   decodeBech32Identifier example_platform naddr_kind_text =
     Inr (Some \<lparr>type_i = Naddr,
                data_i = empty_data\<lparr>kind_d := Some (- 2147483648)\<rparr>,
                tlv_i = Some [\<lparr>type_tlv = 3, typeName = js ''kind'', length_tlv = Some 4,
                               value_tlv = js ''80000000''\<rparr>]\<rparr>) \<and>
   be_value [128, 0, 0, 0] = 2147483648 \<and>
   bytesToNumber [1, 0, 0, 0, 0] = 0 \<and>
   be_value [1, 0, 0, 0, 0] = 4294967296"
proof -
  have "decodeTLV example_platform Naddr naddr_kind_bytes =
          \<lparr>type_i = Naddr,
           data_i = empty_data\<lparr>kind_d := Some (- 2147483648)\<rparr>,
           tlv_i = Some [\<lparr>type_tlv = 3, typeName = js ''kind'', length_tlv = Some 4,
                          value_tlv = js ''80000000''\<rparr>]\<rparr>"
    by (simp add: decodeTLV_eq naddr_kind_bytes_def chunk_entry_def tlv_switch_def
        bytesToHex_kind getTLVTypeName_simps bytesToNumber_kind)
  with decodeBech32Identifier_composite [OF example_decode_naddr_kind
      example_fromWords_naddr_kind composite_type_simps(3)]
  show ?thesis
    using example_decode_naddr_kind example_fromWords_naddr_kind
    by (simp add: naddr_kind_bytes_def be_value_def bytesToNumber_def shl8_def)
qed

end
